theory Spec2Isabelle
  imports Complex_Main "HOL-Library.Char_ord" "HOL-Library.List_Lexorder"
    "HOL-Library.Log_Nat"
begin

section \<open>Values\<close>

text \<open>
  A time of day is a natural number (the code only compares times), a timestamp is a number
  of seconds, a date is its proleptic Gregorian ordinal (\<^verbatim>\<open>date.toordinal()\<close>), and a \<^verbatim>\<open>Decimal\<close> is an exact
  rational: the 28 significant digits of Python's default decimal context, the
  \<^verbatim>\<open>float(...)\<close> applied to the amounts of the price breakdown and the two decimal places a
  stored price column keeps are not modelled.
\<close>

type_synonym time = nat
type_synonym date = nat
type_synonym datetime = int
type_synonym decimal = rat

definition hm :: "nat \<Rightarrow> nat \<Rightarrow> time" where
  \<comment> \<open>\<^verbatim>\<open>time(h, m)\<close>, in minutes since midnight\<close>
  "hm h m = 60 * h + m"

definition weekday :: "date \<Rightarrow> nat" where
  \<comment> \<open>\<^verbatim>\<open>date.weekday()\<close>: 0 is Monday, 6 is Sunday\<close>
  "weekday d = (d + 6) mod 7"

datatype error =
    Court_DoesNotExist
  | Equipment_DoesNotExist
  | Coach_DoesNotExist
  | Booking_DoesNotExist
  | ValueError
  | AttributeError
  | IntegrityError
  | NotificationError

section \<open>Catalog (\<^verbatim>\<open>booking/models.py\<close>)\<close>

record court =
  court_id :: nat
  court_name :: string
  court_type :: string
  court_is_active :: bool

record equipment =
  equipment_id :: nat
  equipment_name :: string
  equipment_type :: string
  total_quantity :: int

record coach =
  coach_id :: nat
  coach_name :: string
  hourly_fee :: decimal
  coach_is_active :: bool

record coach_availability =
  availability_coach :: nat
  day_of_week :: int
  availability_start_time :: time
  availability_end_time :: time

record pricing_rule =
  rule_name :: string
  rule_type :: string
  multiplier :: decimal
  flat_fee :: decimal
  is_percentage :: bool
  is_enabled :: bool
  priority :: int
  rule_start_time :: "time option"
  rule_end_time :: "time option"
  applies_to_days :: string

section \<open>Pricing engine (\<^verbatim>\<open>booking/services/pricing.py\<close>)\<close>

subsection \<open>The weekday list of a rule\<close>

text \<open>
  \<^verbatim>\<open>[int(d.strip()) for d in rule.applies_to_days.split(',') if d.strip()]\<close>, on ASCII text:
  \<^verbatim>\<open>str.split\<close> with a separator, \<^verbatim>\<open>str.strip\<close>, and \<^verbatim>\<open>int\<close> of a string, which accepts a sign
  and decimal digits with single underscores between them and raises \<^verbatim>\<open>ValueError\<close> on
  anything else.
\<close>

fun split_on :: "char \<Rightarrow> string \<Rightarrow> string list" where
  "split_on sep [] = [[]]"
| "split_on sep (c # cs) =
     (if c = sep then [] # split_on sep cs
      else (case split_on sep cs of
              [] \<Rightarrow> [[c]]
            | w # ws \<Rightarrow> (c # w) # ws))"

definition is_space :: "char \<Rightarrow> bool" where
  "is_space c = (of_char c \<in> {9, 10, 11, 12, 13, 28, 29, 30, 31, 32 :: nat})"

definition strip :: "string \<Rightarrow> string" where
  "strip s = rev (dropWhile is_space (rev (dropWhile is_space s)))"

definition digit_val :: "char \<Rightarrow> nat option" where
  "digit_val c =
     (if 48 \<le> (of_char c :: nat) \<and> (of_char c :: nat) \<le> 57 then Some (of_char c - 48)
      else None)"

fun py_digits :: "nat \<Rightarrow> string \<Rightarrow> nat option" where
  "py_digits acc [] = None"
| "py_digits acc (c # cs) =
     (case digit_val c of
        None \<Rightarrow> None
      | Some v \<Rightarrow>
          (case cs of
             [] \<Rightarrow> Some (10 * acc + v)
           | d # ds \<Rightarrow>
               if d = CHR ''_'' then py_digits (10 * acc + v) ds
               else py_digits (10 * acc + v) cs))"

definition py_int :: "string \<Rightarrow> error + int" where
  "py_int s =
     (case strip s of
        [] \<Rightarrow> Inl ValueError
      | c # cs \<Rightarrow>
          if c = CHR ''-'' then
            (case py_digits 0 cs of None \<Rightarrow> Inl ValueError | Some n \<Rightarrow> Inr (- int n))
          else if c = CHR ''+'' then
            (case py_digits 0 cs of None \<Rightarrow> Inl ValueError | Some n \<Rightarrow> Inr (int n))
          else
            (case py_digits 0 (c # cs) of None \<Rightarrow> Inl ValueError | Some n \<Rightarrow> Inr (int n)))"

fun py_ints :: "string list \<Rightarrow> error + int list" where
  "py_ints [] = Inr []"
| "py_ints (d # ds) =
     (case py_int (strip d) of
        Inl e \<Rightarrow> Inl e
      | Inr n \<Rightarrow> (case py_ints ds of Inl e \<Rightarrow> Inl e | Inr ns \<Rightarrow> Inr (n # ns)))"

definition applicable_days :: "string \<Rightarrow> error + int list" where
  "applicable_days s = py_ints (filter (\<lambda>d. strip d \<noteq> []) (split_on CHR '','' s))"

subsection \<open>\<^verbatim>\<open>PricingEngine\<close>\<close>

definition BASE_COURT_PRICE :: decimal where
  "BASE_COURT_PRICE = 500"

definition time_overlaps :: "time \<Rightarrow> time \<Rightarrow> time \<Rightarrow> time \<Rightarrow> bool" where
  \<comment> \<open>\<^verbatim>\<open>PricingEngine._time_overlaps(start1, end1, start2, end2)\<close>\<close>
  "time_overlaps start1 end1 start2 end2 = (start1 < end2 \<and> end1 > start2)"

record breakdown_item =
  item_rule :: string
  item_type :: string
  item_amount :: decimal
  item_is_percentage :: "bool option"
  item_multiplier :: "decimal option"

record pricing_data =
  total_price :: decimal
  base_price :: decimal
  breakdown :: "breakdown_item list"

definition base_item :: "decimal \<Rightarrow> breakdown_item" where
  \<comment> \<open>the first entry of the breakdown; it has no \<^verbatim>\<open>is_percentage\<close> and no \<^verbatim>\<open>multiplier\<close> key\<close>
  "base_item current_price =
     \<lparr>item_rule = ''Base Court Price'', item_type = ''base'', item_amount = current_price,
      item_is_percentage = None, item_multiplier = None\<rparr>"

definition rule_item :: "pricing_rule \<Rightarrow> decimal \<Rightarrow> breakdown_item" where
  \<comment> \<open>the entry appended for an applied rule\<close>
  "rule_item rule rule_amount =
     \<lparr>item_rule = rule_name rule, item_type = rule_type rule, item_amount = rule_amount,
      item_is_percentage = Some (is_percentage rule),
      item_multiplier = (if is_percentage rule then Some (multiplier rule) else None)\<rparr>"

definition applied ::
  "court \<Rightarrow> nat \<Rightarrow> time \<Rightarrow> time \<Rightarrow> equipment list \<Rightarrow> coach option \<Rightarrow> pricing_rule
   \<Rightarrow> error + bool" where
  \<comment> \<open>the value of the flag \<^verbatim>\<open>applied\<close> after the \<^verbatim>\<open>if/elif\<close> chain on \<^verbatim>\<open>rule.rule_type\<close>\<close>
  "applied court dow start_time end_time equipment_list coach rule =
     (if rule_type rule = ''PEAK_HOURS'' then
        (case (rule_start_time rule, rule_end_time rule) of
           (Some rs, Some re) \<Rightarrow> Inr (time_overlaps start_time end_time rs re)
         | _ \<Rightarrow> Inr False)
      else if rule_type rule = ''WEEKEND'' then
        (if applies_to_days rule \<noteq> [] then
           (case applicable_days (applies_to_days rule) of
              Inl e \<Rightarrow> Inl e
            | Inr days \<Rightarrow> Inr (int dow \<in> set days))
         else Inr False)
      else if rule_type rule = ''INDOOR_PREMIUM'' then Inr (court_type court = ''INDOOR'')
      else if rule_type rule = ''EQUIPMENT_FEE'' then Inr (equipment_list \<noteq> [])
      else if rule_type rule = ''COACH_FEE'' then Inr (coach \<noteq> None)
      else Inr False)"

definition apply_rule ::
  "court \<Rightarrow> nat \<Rightarrow> time \<Rightarrow> time \<Rightarrow> equipment list \<Rightarrow> coach option \<Rightarrow> pricing_rule
   \<Rightarrow> decimal \<times> breakdown_item list \<Rightarrow> error + decimal \<times> breakdown_item list" where
  \<comment> \<open>one pass of the loop body on \<^verbatim>\<open>(current_price, breakdown)\<close>\<close>
  "apply_rule court dow start_time end_time equipment_list coach rule st =
     (case st of (current_price, bd) \<Rightarrow>
      (case applied court dow start_time end_time equipment_list coach rule of
         Inl e \<Rightarrow> Inl e
       | Inr False \<Rightarrow> Inr (current_price, bd)
       | Inr True \<Rightarrow>
           if is_percentage rule then
             (let additional_amount = current_price * (multiplier rule - 1)
              in Inr (current_price + additional_amount, bd @ [rule_item rule additional_amount]))
           else if rule_type rule = ''EQUIPMENT_FEE'' then
             (let total_equipment_fee = flat_fee rule * of_nat (length equipment_list)
              in Inr (current_price + total_equipment_fee,
                      bd @ [rule_item rule total_equipment_fee]))
           else if rule_type rule = ''COACH_FEE'' then
             (case coach of
                None \<Rightarrow> Inl AttributeError
              | Some c \<Rightarrow> Inr (current_price + hourly_fee c, bd @ [rule_item rule (hourly_fee c)]))
           else Inr (current_price + flat_fee rule, bd @ [rule_item rule (flat_fee rule)])))"

fun apply_rules ::
  "court \<Rightarrow> nat \<Rightarrow> time \<Rightarrow> time \<Rightarrow> equipment list \<Rightarrow> coach option \<Rightarrow> pricing_rule list
   \<Rightarrow> decimal \<times> breakdown_item list \<Rightarrow> error + decimal \<times> breakdown_item list" where
  "apply_rules court dow start_time end_time equipment_list coach [] st = Inr st"
| "apply_rules court dow start_time end_time equipment_list coach (rule # rules) st =
     (case apply_rule court dow start_time end_time equipment_list coach rule st of
        Inl e \<Rightarrow> Inl e
      | Inr st' \<Rightarrow> apply_rules court dow start_time end_time equipment_list coach rules st')"

definition enabled_rules :: "pricing_rule list \<Rightarrow> pricing_rule list" where
  \<comment> \<open>\<^verbatim>\<open>PricingRule.objects.filter(is_enabled=True).order_by('priority')\<close>: the explicit
      \<^verbatim>\<open>order_by\<close> replaces the model's default ordering; rows of equal priority stay in
      the order of the table\<close>
  "enabled_rules rules = sort_key priority (filter is_enabled rules)"

definition calculate_price ::
  "pricing_rule list \<Rightarrow> court \<Rightarrow> date \<Rightarrow> time \<Rightarrow> time \<Rightarrow> equipment list \<Rightarrow> coach option
   \<Rightarrow> error + pricing_data" where
  "calculate_price rules court date start_time end_time equipment_list coach =
     (case apply_rules court (weekday date) start_time end_time equipment_list coach
             (enabled_rules rules) (BASE_COURT_PRICE, [base_item BASE_COURT_PRICE]) of
        Inl e \<Rightarrow> Inl e
      | Inr (current_price, bd) \<Rightarrow>
          Inr \<lparr>total_price = current_price, base_price = BASE_COURT_PRICE, breakdown = bd\<rparr>)"

subsection \<open>The two roundings of \<^verbatim>\<open>PricingEngine\<close>\<close>

text \<open>
  The definitions above compute with exact numbers. The Python code rounds in two places:
  every \<^verbatim>\<open>Decimal\<close> operation rounds its result to the 28 significant digits of the default
  context, half to even, and every amount of the breakdown is stored as
  \<^verbatim>\<open>float(rule_amount)\<close>, the binary64 number nearest to the amount. This section gives the
  engine with both roundings, on the values of the numbers; the exponent limits of the
  decimal context are not reached by prices and are left out.
\<close>

datatype py_float = Finite rat | PosInf | NegInf | NaN

definition round_half_even :: "rat \<Rightarrow> int" where
  \<comment> \<open>the nearest integer, a tie going to the even one\<close>
  "round_half_even x =
     (let n = \<lfloor>x\<rfloor>; r = x - of_int n
      in if r < 1 / 2 then n else if r > 1 / 2 then n + 1 else if even n then n else n + 1)"

definition magnitude :: "nat \<Rightarrow> rat \<Rightarrow> int" where
  \<comment> \<open>for \<open>a > 0\<close>, the exponent \<open>e\<close> with \<open>b ^ e \<le> a < b ^ (e + 1)\<close>, from the number of base
      \<open>b\<close> digits of \<open>\<lfloor>a\<rfloor>\<close>, or of \<open>\<lceil>1 / a\<rceil> - 1\<close> when \<open>a < 1\<close>\<close>
  "magnitude b a =
     (if 1 \<le> a then int (floorlog b (nat \<lfloor>a\<rfloor>)) - 1
      else - int (floorlog b (nat (\<lceil>1 / a\<rceil> - 1))))"

definition scaleb :: "nat \<Rightarrow> int \<Rightarrow> rat" where
  \<comment> \<open>\<open>b\<close> to the power \<open>e\<close>, for an exponent of either sign\<close>
  "scaleb b e = (if 0 \<le> e then of_nat b ^ nat e else 1 / of_nat b ^ nat (- e))"

definition context_round :: "decimal \<Rightarrow> decimal" where
  \<comment> \<open>the result of a \<^verbatim>\<open>Decimal\<close> operation whose exact value is \<open>x\<close>: 28 significant
      digits, \<^verbatim>\<open>ROUND_HALF_EVEN\<close>\<close>
  "context_round x =
     (if x = 0 then 0
      else (let q = scaleb 10 (magnitude 10 \<bar>x\<bar> - 27)
            in of_int (round_half_even (x / q)) * q))"

definition round_to_binary64 :: "rat \<Rightarrow> py_float" where
  \<comment> \<open>the binary64 number nearest to \<open>x\<close>: 53 significant bits, no exponent below that of
      the subnormal numbers, an infinity from \<open>2 ^ 1024\<close> on\<close>
  "round_to_binary64 x =
     (if x = 0 then Finite 0
      else (let q = scaleb 2 (max (magnitude 2 \<bar>x\<bar>) (- 1022) - 52);
                v = of_int (round_half_even (x / q)) * q
            in if 1024 \<le> magnitude 2 \<bar>v\<bar> then (if 0 < x then PosInf else NegInf)
               else Finite v))"

definition float_of_decimal :: "decimal \<Rightarrow> py_float" where
  \<comment> \<open>\<^verbatim>\<open>float(d)\<close> for a finite \<^verbatim>\<open>Decimal\<close>\<close>
  "float_of_decimal d = round_to_binary64 d"

fun float_add :: "py_float \<Rightarrow> py_float \<Rightarrow> py_float" where
  \<comment> \<open>\<^verbatim>\<open>a + b\<close> on two floats\<close>
  "float_add (Finite x) (Finite y) = round_to_binary64 (x + y)"
| "float_add NaN b = NaN"
| "float_add a NaN = NaN"
| "float_add PosInf NegInf = NaN"
| "float_add NegInf PosInf = NaN"
| "float_add PosInf b = PosInf"
| "float_add a PosInf = PosInf"
| "float_add NegInf b = NegInf"
| "float_add a NegInf = NegInf"

definition float_sum :: "py_float list \<Rightarrow> py_float" where
  \<comment> \<open>the floats added one after the other, from the left\<close>
  "float_sum xs = foldl float_add (Finite 0) xs"

record breakdown_entry =
  entry_rule :: string
  entry_type :: string
  entry_amount :: py_float
  entry_is_percentage :: "bool option"
  entry_multiplier :: "py_float option"

record pricing_result =
  result_total :: decimal
  result_base :: decimal
  result_breakdown :: "breakdown_entry list"

definition base_entry :: "decimal \<Rightarrow> breakdown_entry" where
  "base_entry current_price =
     \<lparr>entry_rule = ''Base Court Price'', entry_type = ''base'',
      entry_amount = float_of_decimal current_price,
      entry_is_percentage = None, entry_multiplier = None\<rparr>"

definition rule_entry :: "pricing_rule \<Rightarrow> decimal \<Rightarrow> breakdown_entry" where
  "rule_entry rule rule_amount =
     \<lparr>entry_rule = rule_name rule, entry_type = rule_type rule,
      entry_amount = float_of_decimal rule_amount,
      entry_is_percentage = Some (is_percentage rule),
      entry_multiplier =
        (if is_percentage rule then Some (float_of_decimal (multiplier rule)) else None)\<rparr>"

definition rule_amount ::
  "decimal \<Rightarrow> equipment list \<Rightarrow> coach option \<Rightarrow> pricing_rule \<Rightarrow> error + decimal" where
  \<comment> \<open>the \<^verbatim>\<open>Decimal\<close> that an applied rule assigns to \<^verbatim>\<open>rule_amount\<close> and adds to the price\<close>
  "rule_amount current_price equipment_list coach rule =
     (if is_percentage rule then
        Inr (context_round (current_price * context_round (multiplier rule - 1)))
      else if rule_type rule = ''EQUIPMENT_FEE'' then
        Inr (context_round (flat_fee rule * of_nat (length equipment_list)))
      else if rule_type rule = ''COACH_FEE'' then
        (case coach of None \<Rightarrow> Inl AttributeError | Some c \<Rightarrow> Inr (hourly_fee c))
      else Inr (flat_fee rule))"

definition apply_rule_decimal ::
  "court \<Rightarrow> nat \<Rightarrow> time \<Rightarrow> time \<Rightarrow> equipment list \<Rightarrow> coach option \<Rightarrow> pricing_rule
   \<Rightarrow> decimal \<times> breakdown_entry list \<Rightarrow> error + decimal \<times> breakdown_entry list" where
  "apply_rule_decimal court dow start_time end_time equipment_list coach rule st =
     (case st of (current_price, bd) \<Rightarrow>
      (case applied court dow start_time end_time equipment_list coach rule of
         Inl e \<Rightarrow> Inl e
       | Inr False \<Rightarrow> Inr (current_price, bd)
       | Inr True \<Rightarrow>
           (case rule_amount current_price equipment_list coach rule of
              Inl e \<Rightarrow> Inl e
            | Inr amount \<Rightarrow>
                Inr (context_round (current_price + amount), bd @ [rule_entry rule amount]))))"

fun apply_rules_decimal ::
  "court \<Rightarrow> nat \<Rightarrow> time \<Rightarrow> time \<Rightarrow> equipment list \<Rightarrow> coach option \<Rightarrow> pricing_rule list
   \<Rightarrow> decimal \<times> breakdown_entry list \<Rightarrow> error + decimal \<times> breakdown_entry list" where
  "apply_rules_decimal court dow start_time end_time equipment_list coach [] st = Inr st"
| "apply_rules_decimal court dow start_time end_time equipment_list coach (rule # rules) st =
     (case apply_rule_decimal court dow start_time end_time equipment_list coach rule st of
        Inl e \<Rightarrow> Inl e
      | Inr st' \<Rightarrow>
          apply_rules_decimal court dow start_time end_time equipment_list coach rules st')"

definition calculate_price_decimal ::
  "pricing_rule list \<Rightarrow> court \<Rightarrow> date \<Rightarrow> time \<Rightarrow> time \<Rightarrow> equipment list \<Rightarrow> coach option
   \<Rightarrow> error + pricing_result" where
  \<comment> \<open>\<^verbatim>\<open>PricingEngine.calculate_price\<close> with the roundings of \<^verbatim>\<open>Decimal\<close> and \<^verbatim>\<open>float\<close>\<close>
  "calculate_price_decimal rules court date start_time end_time equipment_list coach =
     (case apply_rules_decimal court (weekday date) start_time end_time equipment_list coach
             (enabled_rules rules) (BASE_COURT_PRICE, [base_entry BASE_COURT_PRICE]) of
        Inl e \<Rightarrow> Inl e
      | Inr (current_price, bd) \<Rightarrow>
          Inr \<lparr>result_total = current_price, result_base = BASE_COURT_PRICE,
               result_breakdown = bd\<rparr>)"


section \<open>Reservations and waitlist entries (\<^verbatim>\<open>booking/models.py\<close>)\<close>

datatype booking_status = CONFIRMED | CANCELLED

datatype waitlist_status = WAITING | NOTIFIED | EXPIRED

record booking =
  booking_id :: nat
  booking_user :: nat
  booking_court :: nat
  booking_date :: date
  booking_start_time :: time
  booking_end_time :: time
  booking_coach :: "nat option"
  booking_base_price :: decimal
  booking_total_price :: decimal
  price_breakdown :: "breakdown_item list"
  booking_status :: booking_status
  booking_created_at :: datetime
  booking_updated_at :: datetime

record booking_equipment =
  be_booking :: nat
  be_equipment :: nat
  quantity :: int

record waitlist =
  waitlist_id :: nat
  waitlist_user :: nat
  waitlist_court :: nat
  waitlist_date :: date
  waitlist_start_time :: time
  waitlist_end_time :: time
  waitlist_status :: waitlist_status
  created_at :: datetime
  notified_at :: "datetime option"

text \<open>
  The database: one list of rows per table, in the order the rows were inserted. A foreign
  key is the primary key of the row it names.
\<close>

record database =
  courts :: "court list"
  equipments :: "equipment list"
  coaches :: "coach list"
  coach_availabilities :: "coach_availability list"
  pricing_rules :: "pricing_rule list"
  bookings :: "booking list"
  booking_equipments :: "booking_equipment list"
  waitlists :: "waitlist list"

definition next_id :: "nat list \<Rightarrow> nat" where
  \<comment> \<open>the primary key an insert assigns: one not in the table\<close>
  "next_id ids = Suc (foldr max ids 0)"

definition truthy :: "nat option \<Rightarrow> bool" where
  \<comment> \<open>\<^verbatim>\<open>if coach_id:\<close> and \<^verbatim>\<open>if exclude_booking_id:\<close> on an optional id: \<^verbatim>\<open>None\<close> and 0 are false\<close>
  "truthy i = (case i of None \<Rightarrow> False | Some n \<Rightarrow> n \<noteq> 0)"

definition get_court :: "database \<Rightarrow> nat \<Rightarrow> error + court" where
  \<comment> \<open>\<^verbatim>\<open>Court.objects.get(id=court_id)\<close>\<close>
  "get_court db i =
     (case find (\<lambda>c. court_id c = i) (courts db) of
        None \<Rightarrow> Inl Court_DoesNotExist
      | Some c \<Rightarrow> Inr c)"

definition get_equipment :: "database \<Rightarrow> nat \<Rightarrow> error + equipment" where
  \<comment> \<open>\<^verbatim>\<open>Equipment.objects.get(id=equipment_id)\<close>\<close>
  "get_equipment db i =
     (case find (\<lambda>e. equipment_id e = i) (equipments db) of
        None \<Rightarrow> Inl Equipment_DoesNotExist
      | Some e \<Rightarrow> Inr e)"

definition get_coach :: "database \<Rightarrow> nat \<Rightarrow> error + coach" where
  \<comment> \<open>\<^verbatim>\<open>Coach.objects.get(id=coach_id)\<close>\<close>
  "get_coach db i =
     (case find (\<lambda>c. coach_id c = i) (coaches db) of
        None \<Rightarrow> Inl Coach_DoesNotExist
      | Some c \<Rightarrow> Inr c)"

section \<open>Availability (\<^verbatim>\<open>booking/services/availability.py\<close>)\<close>

definition confirmed_in_window :: "date \<Rightarrow> time \<Rightarrow> time \<Rightarrow> booking \<Rightarrow> bool" where
  \<comment> \<open>the filter \<^verbatim>\<open>date=date, start_time__lt=end_time, end_time__gt=start_time,
      status='CONFIRMED'\<close> that every query on bookings shares\<close>
  "confirmed_in_window date start_time end_time b =
     (booking_date b = date \<and> booking_start_time b < end_time \<and> booking_end_time b > start_time
      \<and> booking_status b = CONFIRMED)"

definition excluded :: "nat option \<Rightarrow> nat \<Rightarrow> bool" where
  \<comment> \<open>\<^verbatim>\<open>if exclude_booking_id: query = query.exclude(id=exclude_booking_id)\<close>\<close>
  "excluded exclude_booking_id i = (truthy exclude_booking_id \<and> exclude_booking_id = Some i)"

definition check_court_available ::
  "database \<Rightarrow> nat \<Rightarrow> date \<Rightarrow> time \<Rightarrow> time \<Rightarrow> nat option \<Rightarrow> bool" where
  "check_court_available db cid date start_time end_time exclude_booking_id =
     (filter (\<lambda>b. booking_court b = cid \<and> confirmed_in_window date start_time end_time b
                 \<and> \<not> excluded exclude_booking_id (booking_id b)) (bookings db) = [])"

definition check_coach_available ::
  "database \<Rightarrow> nat \<Rightarrow> date \<Rightarrow> time \<Rightarrow> time \<Rightarrow> nat option \<Rightarrow> bool" where
  "check_coach_available db cid date start_time end_time exclude_booking_id =
     (let has_availability =
            (filter (\<lambda>a. availability_coach a = cid \<and> day_of_week a = int (weekday date)
                        \<and> availability_start_time a \<le> start_time
                        \<and> availability_end_time a \<ge> end_time) (coach_availabilities db) \<noteq> [])
      in if \<not> has_availability then False
         else filter (\<lambda>b. booking_coach b = Some cid
                          \<and> confirmed_in_window date start_time end_time b
                          \<and> \<not> excluded exclude_booking_id (booking_id b)) (bookings db) = [])"

definition booked_quantity ::
  "database \<Rightarrow> nat \<Rightarrow> date \<Rightarrow> time \<Rightarrow> time \<Rightarrow> nat option \<Rightarrow> int" where
  \<comment> \<open>\<^verbatim>\<open>query.aggregate(total=Sum('quantity'))['total'] or 0\<close> over the line items of the
      equipment whose booking is confirmed in the window\<close>
  "booked_quantity db eid date start_time end_time exclude_booking_id =
     sum_list (map quantity
       (filter (\<lambda>be. be_equipment be = eid
                   \<and> list_ex (\<lambda>b. booking_id b = be_booking be
                                   \<and> confirmed_in_window date start_time end_time b) (bookings db)
                   \<and> \<not> excluded exclude_booking_id (be_booking be))
          (booking_equipments db)))"

definition check_equipment_available ::
  "database \<Rightarrow> nat \<Rightarrow> int \<Rightarrow> date \<Rightarrow> time \<Rightarrow> time \<Rightarrow> nat option \<Rightarrow> error + bool" where
  "check_equipment_available db eid qty date start_time end_time exclude_booking_id =
     (case get_equipment db eid of
        Inl e \<Rightarrow> Inl e
      | Inr equipment \<Rightarrow>
          (let available_quantity =
                 total_quantity equipment
                 - booked_quantity db eid date start_time end_time exclude_booking_id
           in Inr (available_quantity \<ge> qty)))"

definition get_available_quantity :: "database \<Rightarrow> equipment \<Rightarrow> date \<Rightarrow> time \<Rightarrow> time \<Rightarrow> int" where
  \<comment> \<open>\<^verbatim>\<open>Equipment.get_available_quantity\<close>\<close>
  "get_available_quantity db equipment date start_time end_time =
     total_quantity equipment
     - booked_quantity db (equipment_id equipment) date start_time end_time None"

definition get_available_coaches :: "database \<Rightarrow> date \<Rightarrow> time \<Rightarrow> time \<Rightarrow> coach list" where
  \<comment> \<open>the result is in the model's default order, by name\<close>
  "get_available_coaches db date start_time end_time =
     (let available_coach_ids =
            map availability_coach
              (filter (\<lambda>a. day_of_week a = int (weekday date)
                          \<and> availability_start_time a \<le> start_time
                          \<and> availability_end_time a \<ge> end_time
                          \<and> list_ex (\<lambda>c. coach_id c = availability_coach a \<and> coach_is_active c)
                                (coaches db))
                 (coach_availabilities db));
          booked_coach_ids =
            List.map_filter booking_coach
              (filter (confirmed_in_window date start_time end_time) (bookings db))
      in sort_key coach_name
           (filter (\<lambda>c. coach_id c \<in> set available_coach_ids \<and> coach_id c \<notin> set booked_coach_ids)
              (coaches db)))"

record availability_check =
  available :: bool
  errors :: "string list"

fun check_equipment_list ::
  "database \<Rightarrow> date \<Rightarrow> time \<Rightarrow> time \<Rightarrow> (nat \<times> int) list \<Rightarrow> error + string list" where
  \<comment> \<open>the loop over the requested line items \<^verbatim>\<open>(equipment_id, quantity)\<close>; it collects the
      message of every line that fails\<close>
  "check_equipment_list db date start_time end_time [] = Inr []"
| "check_equipment_list db date start_time end_time (item # items) =
     (case check_equipment_available db (fst item) (snd item) date start_time end_time None of
        Inl e \<Rightarrow> Inl e
      | Inr ok \<Rightarrow>
          (case (if ok then Inr []
                 else (case get_equipment db (fst item) of
                         Inl e \<Rightarrow> Inl e
                       | Inr equipment \<Rightarrow>
                           Inr [''Insufficient '' @ equipment_name equipment @ '' available''])) of
             Inl e \<Rightarrow> Inl e
           | Inr errs \<Rightarrow>
               (case check_equipment_list db date start_time end_time items of
                  Inl e \<Rightarrow> Inl e
                | Inr rest \<Rightarrow> Inr (errs @ rest))))"

definition check_all_resources_available ::
  "database \<Rightarrow> date \<Rightarrow> time \<Rightarrow> time \<Rightarrow> nat \<Rightarrow> (nat \<times> int) list \<Rightarrow> nat option
   \<Rightarrow> error + availability_check" where
  "check_all_resources_available db date start_time end_time cid equipment_list coach =
     (let court_errors =
            (if \<not> check_court_available db cid date start_time end_time None
             then [''Selected court is not available for this time slot''] else [])
      in case check_equipment_list db date start_time end_time equipment_list of
           Inl e \<Rightarrow> Inl e
         | Inr equipment_errors \<Rightarrow>
             (let coach_errors =
                    (case coach of
                       None \<Rightarrow> []
                     | Some i \<Rightarrow>
                         if truthy coach
                            \<and> \<not> check_coach_available db i date start_time end_time None
                         then [''Selected coach is not available for this time slot''] else []);
                  errs = court_errors @ equipment_errors @ coach_errors
              in Inr \<lparr>available = (length errs = 0), errors = errs\<rparr>))"

section \<open>Waitlist (\<^verbatim>\<open>booking/services/waitlist.py\<close>)\<close>

definition slot_entry :: "nat \<Rightarrow> date \<Rightarrow> time \<Rightarrow> time \<Rightarrow> waitlist \<Rightarrow> bool" where
  \<comment> \<open>the filter \<^verbatim>\<open>court=court, date=date, start_time=start_time, end_time=end_time\<close>\<close>
  "slot_entry cid date start_time end_time w =
     (waitlist_court w = cid \<and> waitlist_date w = date \<and> waitlist_start_time w = start_time
      \<and> waitlist_end_time w = end_time)"

definition add_to_waitlist ::
  "datetime \<Rightarrow> nat \<Rightarrow> court \<Rightarrow> date \<Rightarrow> time \<Rightarrow> time \<Rightarrow> database \<Rightarrow> waitlist option \<times> database" where
  \<comment> \<open>\<^verbatim>\<open>now\<close> is the clock reading that \<^verbatim>\<open>auto_now_add\<close> stores in \<^verbatim>\<open>created_at\<close>\<close>
  "add_to_waitlist now user court date start_time end_time db =
     (let existing =
            find (\<lambda>w. waitlist_user w = user \<and> slot_entry (court_id court) date start_time end_time w
                     \<and> waitlist_status w = WAITING)
              (sort_key created_at (waitlists db))
      in if existing \<noteq> None then (None, db)
         else
           (let waitlist_entry =
                  \<lparr>waitlist_id = next_id (map waitlist_id (waitlists db)), waitlist_user = user,
                   waitlist_court = court_id court, waitlist_date = date,
                   waitlist_start_time = start_time, waitlist_end_time = end_time,
                   waitlist_status = WAITING, created_at = now, notified_at = None\<rparr>
            in (Some waitlist_entry, db\<lparr>waitlists := waitlists db @ [waitlist_entry]\<rparr>)))"

fun position_of :: "nat \<Rightarrow> nat \<Rightarrow> waitlist list \<Rightarrow> nat option" where
  \<comment> \<open>\<^verbatim>\<open>for idx, entry in enumerate(waitlist_entries, start=idx): if entry.user == user:
      return idx\<close>\<close>
  "position_of user idx [] = None"
| "position_of user idx (entry # entries) =
     (if waitlist_user entry = user then Some idx else position_of user (Suc idx) entries)"

definition get_waitlist_position ::
  "nat \<Rightarrow> court \<Rightarrow> date \<Rightarrow> time \<Rightarrow> time \<Rightarrow> database \<Rightarrow> nat option" where
  "get_waitlist_position user court date start_time end_time db =
     position_of user 1
       (sort_key created_at
          (filter (\<lambda>w. slot_entry (court_id court) date start_time end_time w
                      \<and> waitlist_status w = WAITING) (waitlists db)))"

text \<open>
  \<^verbatim>\<open>notify_next_in_queue\<close> saves the entry and then sends the notification (in the source a
  \<^verbatim>\<open>print\<close>, the stand-in for e-mail or SMS). The sending is the parameter \<open>deliver\<close>: on
  the saved entry and the court it answers whether the notification went out; when it
  does not, the call raises. \<open>now\<close> is \<^verbatim>\<open>timezone.now()\<close>. A result \<open>Inl\<close> carries no
  database: the \<^verbatim>\<open>transaction.atomic()\<close> block is left by an exception and what it wrote
  is rolled back.
\<close>

definition notify_next_in_queue ::
  "(waitlist \<Rightarrow> court \<Rightarrow> bool) \<Rightarrow> datetime \<Rightarrow> court \<Rightarrow> date \<Rightarrow> time \<Rightarrow> time \<Rightarrow> database
   \<Rightarrow> error + waitlist option \<times> database" where
  "notify_next_in_queue deliver now court date start_time end_time db =
     (case sort_key created_at
             (filter (\<lambda>w. slot_entry (court_id court) date start_time end_time w
                         \<and> waitlist_status w = WAITING) (waitlists db)) of
        [] \<Rightarrow> Inr (None, db)
      | first # _ \<Rightarrow>
          (let next_in_queue = first\<lparr>waitlist_status := NOTIFIED, notified_at := Some now\<rparr>;
               db' = db\<lparr>waitlists :=
                          map (\<lambda>w. if waitlist_id w = waitlist_id next_in_queue
                                    then next_in_queue else w) (waitlists db)\<rparr>
           in if deliver next_in_queue court then Inr (Some next_in_queue, db')
              else Inl NotificationError))"

definition expire_old_notifications :: "datetime \<Rightarrow> database \<Rightarrow> nat \<times> database" where
  "expire_old_notifications now db =
     (let expiry_time = now - 24 * 3600;
          stale = (\<lambda>w. waitlist_status w = NOTIFIED
                        \<and> (case notified_at w of None \<Rightarrow> False | Some t \<Rightarrow> t < expiry_time))
      in (length (filter stale (waitlists db)),
          db\<lparr>waitlists :=
                map (\<lambda>w. if stale w then w\<lparr>waitlist_status := EXPIRED\<rparr> else w) (waitlists db)\<rparr>))"

definition remove_from_waitlist :: "nat \<Rightarrow> nat \<Rightarrow> database \<Rightarrow> bool \<times> database" where
  "remove_from_waitlist wid user db =
     (case find (\<lambda>w. waitlist_id w = wid \<and> waitlist_user w = user) (waitlists db) of
        None \<Rightarrow> (False, db)
      | Some waitlist_entry \<Rightarrow>
          (True, db\<lparr>waitlists :=
                      filter (\<lambda>w. waitlist_id w \<noteq> waitlist_id waitlist_entry) (waitlists db)\<rparr>))"

section \<open>Views (\<^verbatim>\<open>booking/views.py\<close>)\<close>

text \<open>
  A view takes the fields of the parsed request body and the logged-in user, and returns
  its JSON response with the database it leaves. An exception inside
  \<^verbatim>\<open>with transaction.atomic()\<close> rolls the block's writes back, and the view's
  \<^verbatim>\<open>except Exception\<close> turns it into the generic error response.
\<close>

datatype response =
    BookingConfirmed nat
  | SlotFull
  | NotAvailable "string list"
  | ErrorResponse error
  | WaitlistJoined "nat option"
  | AlreadyInWaitlist
  | WaitlistRemoved
  | WaitlistEntryNotFound
  | BookingCancelled "nat option"
  | BookingNotFound

definition status_code :: "response \<Rightarrow> nat" where
  "status_code r =
     (case r of
        BookingConfirmed _ \<Rightarrow> 200
      | SlotFull \<Rightarrow> 409
      | NotAvailable _ \<Rightarrow> 400
      | ErrorResponse _ \<Rightarrow> 400
      | WaitlistJoined _ \<Rightarrow> 200
      | AlreadyInWaitlist \<Rightarrow> 400
      | WaitlistRemoved \<Rightarrow> 200
      | WaitlistEntryNotFound \<Rightarrow> 404
      | BookingCancelled _ \<Rightarrow> 200
      | BookingNotFound \<Rightarrow> 404)"

fun get_equipments :: "database \<Rightarrow> nat list \<Rightarrow> error + equipment list" where
  \<comment> \<open>\<^verbatim>\<open>[Equipment.objects.get(id=e['id']) for e in equipment_list]\<close>\<close>
  "get_equipments db [] = Inr []"
| "get_equipments db (i # ids) =
     (case get_equipment db i of
        Inl e \<Rightarrow> Inl e
      | Inr equipment \<Rightarrow>
          (case get_equipments db ids of
             Inl e \<Rightarrow> Inl e
           | Inr rest \<Rightarrow> Inr (equipment # rest)))"

fun create_booking_equipment ::
  "nat \<Rightarrow> (nat \<times> int) list \<Rightarrow> booking_equipment list \<Rightarrow> error + booking_equipment list" where
  \<comment> \<open>the loop of \<^verbatim>\<open>BookingEquipment.objects.create\<close>: the table refuses a negative
      \<^verbatim>\<open>quantity\<close> (a \<^verbatim>\<open>PositiveIntegerField\<close>) and a second row of the same booking and
      equipment (\<^verbatim>\<open>unique_together\<close>)\<close>
  "create_booking_equipment bid [] rows = Inr rows"
| "create_booking_equipment bid (equip_data # equipment_list) rows =
     (if snd equip_data < 0
         \<or> list_ex (\<lambda>r. be_booking r = bid \<and> be_equipment r = fst equip_data) rows
      then Inl IntegrityError
      else create_booking_equipment bid equipment_list
             (rows @ [\<lparr>be_booking = bid, be_equipment = fst equip_data,
                       quantity = snd equip_data\<rparr>]))"

definition confirm_booking ::
  "datetime \<Rightarrow> nat \<Rightarrow> nat \<Rightarrow> date \<Rightarrow> time \<Rightarrow> time \<Rightarrow> (nat \<times> int) list \<Rightarrow> nat option \<Rightarrow> database
   \<Rightarrow> response \<times> database" where
  "confirm_booking now user cid date start_time end_time equipment_list coach db =
     (case
        (case get_court db cid of
           Inl e \<Rightarrow> Inl e
         | Inr court \<Rightarrow>
             if filter (\<lambda>b. booking_court b = court_id court
                            \<and> confirmed_in_window date start_time end_time b) (bookings db) \<noteq> []
             then Inr (SlotFull, db)
             else
               (case check_all_resources_available db date start_time end_time cid
                       equipment_list coach of
                  Inl e \<Rightarrow> Inl e
                | Inr availability_check \<Rightarrow>
                    if \<not> available availability_check
                    then Inr (NotAvailable (errors availability_check), db)
                    else
                      (case (case coach of
                               None \<Rightarrow> Inr None
                             | Some i \<Rightarrow>
                                 if truthy coach then map_sum id Some (get_coach db i)
                                 else Inr None) of
                         Inl e \<Rightarrow> Inl e
                       | Inr coach_instance \<Rightarrow>
                           (case get_equipments db (map fst equipment_list) of
                              Inl e \<Rightarrow> Inl e
                            | Inr equipment_instances \<Rightarrow>
                                (case calculate_price (pricing_rules db) court date start_time
                                        end_time equipment_instances coach_instance of
                                   Inl e \<Rightarrow> Inl e
                                 | Inr pricing \<Rightarrow>
                                     (let booking =
                                            \<lparr>booking_id = next_id (map booking_id (bookings db)),
                                             booking_user = user,
                                             booking_court = court_id court,
                                             booking_date = date,
                                             booking_start_time = start_time,
                                             booking_end_time = end_time,
                                             booking_coach = map_option coach_id coach_instance,
                                             booking_base_price = base_price pricing,
                                             booking_total_price = total_price pricing,
                                             price_breakdown = breakdown pricing,
                                             booking_status = CONFIRMED,
                                             booking_created_at = now,
                                             booking_updated_at = now\<rparr>
                                      in case create_booking_equipment (booking_id booking)
                                                equipment_list (booking_equipments db) of
                                           Inl e \<Rightarrow> Inl e
                                         | Inr rows \<Rightarrow>
                                             Inr (BookingConfirmed (booking_id booking),
                                                  db\<lparr>bookings := bookings db @ [booking],
                                                     booking_equipments := rows\<rparr>))))))) of
        Inl e \<Rightarrow> (ErrorResponse e, db)
      | Inr result \<Rightarrow> result)"

definition join_waitlist ::
  "datetime \<Rightarrow> nat \<Rightarrow> nat \<Rightarrow> date \<Rightarrow> time \<Rightarrow> time \<Rightarrow> database \<Rightarrow> response \<times> database" where
  "join_waitlist now user cid date start_time end_time db =
     (case get_court db cid of
        Inl e \<Rightarrow> (ErrorResponse e, db)
      | Inr court \<Rightarrow>
          (case add_to_waitlist now user court date start_time end_time db of
             (Some waitlist_entry, db') \<Rightarrow>
               (WaitlistJoined (get_waitlist_position user court date start_time end_time db'),
                db')
           | (None, db') \<Rightarrow> (AlreadyInWaitlist, db')))"

definition get_confirmed_booking :: "database \<Rightarrow> nat \<Rightarrow> nat \<Rightarrow> error + booking" where
  \<comment> \<open>\<^verbatim>\<open>Booking.objects.select_for_update().get(id=booking_id, user=request.user,
      status='CONFIRMED')\<close>\<close>
  "get_confirmed_booking db bid user =
     (case find (\<lambda>b. booking_id b = bid \<and> booking_user b = user
                     \<and> booking_status b = CONFIRMED) (bookings db) of
        None \<Rightarrow> Inl Booking_DoesNotExist
      | Some booking \<Rightarrow> Inr booking)"

definition cancel_booking ::
  "(waitlist \<Rightarrow> court \<Rightarrow> bool) \<Rightarrow> datetime \<Rightarrow> nat \<Rightarrow> nat \<Rightarrow> database \<Rightarrow> response \<times> database" where
  "cancel_booking deliver now user bid db =
     (case
        (case get_confirmed_booking db bid user of
           Inl e \<Rightarrow> Inl e
         | Inr booking \<Rightarrow>
             (case get_court db (booking_court booking) of
                Inl e \<Rightarrow> Inl e
              | Inr court \<Rightarrow>
                  (let cancelled =
                         booking\<lparr>booking_status := CANCELLED, booking_updated_at := now\<rparr>;
                       db1 = db\<lparr>bookings :=
                                  map (\<lambda>b. if booking_id b = booking_id cancelled then cancelled
                                            else b) (bookings db)\<rparr>
                   in case notify_next_in_queue deliver now court (booking_date booking)
                             (booking_start_time booking) (booking_end_time booking) db1 of
                        Inl e \<Rightarrow> Inl e
                      | Inr (notified, db2) \<Rightarrow>
                          Inr (BookingCancelled (map_option waitlist_user notified), db2)))) of
        Inl Booking_DoesNotExist \<Rightarrow> (BookingNotFound, db)
      | Inl e \<Rightarrow> (ErrorResponse e, db)
      | Inr result \<Rightarrow> result)"

section \<open>Notions used in the properties\<close>

definition rules_by_priority_and_name :: "pricing_rule list \<Rightarrow> pricing_rule list" where
  \<comment> \<open>the order the specification states, and the default ordering \<^verbatim>\<open>['priority', 'name']\<close> of
      \<^verbatim>\<open>PricingRule.Meta\<close>: by priority, rules of equal priority by name\<close>
  "rules_by_priority_and_name rules =
     sort_key priority (sort_key rule_name (filter is_enabled rules))"

definition booking_courts_exist :: "database \<Rightarrow> bool" where
  \<comment> \<open>the foreign key \<^verbatim>\<open>Booking.court\<close>: the court of every booking is a row of the catalog\<close>
  "booking_courts_exist db =
     list_all (\<lambda>b. list_ex (\<lambda>c. court_id c = booking_court b) (courts db)) (bookings db)"

definition waiting_for :: "nat \<Rightarrow> date \<Rightarrow> time \<Rightarrow> time \<Rightarrow> waitlist \<Rightarrow> bool" where
  \<comment> \<open>a \<^verbatim>\<open>WAITING\<close> entry of the slot\<close>
  "waiting_for cid date start_time end_time w =
     (slot_entry cid date start_time end_time w \<and> waitlist_status w = WAITING)"

definition waiting_keys :: "database \<Rightarrow> (nat \<times> nat \<times> date \<times> time \<times> time) list" where
  \<comment> \<open>requester and slot of every \<^verbatim>\<open>WAITING\<close> entry\<close>
  "waiting_keys db =
     map (\<lambda>w. (waitlist_user w, waitlist_court w, waitlist_date w, waitlist_start_time w,
                waitlist_end_time w))
       (filter (\<lambda>w. waitlist_status w = WAITING) (waitlists db))"

definition at_most_one_waiting :: "database \<Rightarrow> bool" where
  \<comment> \<open>no requester has two \<^verbatim>\<open>WAITING\<close> entries for the same slot\<close>
  "at_most_one_waiting db = distinct (waiting_keys db)"

definition new_entry ::
  "datetime \<Rightarrow> nat \<Rightarrow> court \<Rightarrow> date \<Rightarrow> time \<Rightarrow> time \<Rightarrow> database \<Rightarrow> waitlist" where
  \<comment> \<open>the row \<open>add_to_waitlist\<close> creates\<close>
  "new_entry now user court date start_time end_time db =
     \<lparr>waitlist_id = next_id (map waitlist_id (waitlists db)), waitlist_user = user,
      waitlist_court = court_id court, waitlist_date = date, waitlist_start_time = start_time,
      waitlist_end_time = end_time, waitlist_status = WAITING, created_at = now,
      notified_at = None\<rparr>"

definition line_items_have_bookings :: "database \<Rightarrow> bool" where
  \<comment> \<open>the foreign key \<^verbatim>\<open>BookingEquipment.booking\<close>: every line item belongs to a booking\<close>
  "line_items_have_bookings db =
     list_all (\<lambda>r. list_ex (\<lambda>b. booking_id b = be_booking r) (bookings db))
       (booking_equipments db)"

definition requested_coach :: "database \<Rightarrow> nat option \<Rightarrow> error + coach option" where
  \<comment> \<open>\<^verbatim>\<open>Coach.objects.get(id=coach_id) if coach_id else None\<close>, as \<open>confirm_booking\<close> computes it\<close>
  "requested_coach db coach =
     (case coach of
        None \<Rightarrow> Inr None
      | Some i \<Rightarrow> if truthy coach then map_sum id Some (get_coach db i) else Inr None)"

definition new_booking ::
  "datetime \<Rightarrow> nat \<Rightarrow> court \<Rightarrow> date \<Rightarrow> time \<Rightarrow> time \<Rightarrow> coach option \<Rightarrow> pricing_data \<Rightarrow> database
   \<Rightarrow> booking" where
  \<comment> \<open>the row \<open>confirm_booking\<close> creates\<close>
  "new_booking now user court date start_time end_time coach_instance pricing db =
     \<lparr>booking_id = next_id (map booking_id (bookings db)), booking_user = user,
      booking_court = court_id court, booking_date = date, booking_start_time = start_time,
      booking_end_time = end_time, booking_coach = map_option coach_id coach_instance,
      booking_base_price = base_price pricing, booking_total_price = total_price pricing,
      price_breakdown = breakdown pricing, booking_status = CONFIRMED,
      booking_created_at = now, booking_updated_at = now\<rparr>"

fun sums_exactly ::
  "court \<Rightarrow> nat \<Rightarrow> time \<Rightarrow> time \<Rightarrow> equipment list \<Rightarrow> coach option \<Rightarrow> pricing_rule list
   \<Rightarrow> decimal \<Rightarrow> bool" where
  \<comment> \<open>along the run from the price \<open>p\<close>: no amount is changed by the conversion to
      \<^verbatim>\<open>float\<close>, and no addition to the price is rounded\<close>
  "sums_exactly court dow start_time end_time equipment_list coach [] p = True"
| "sums_exactly court dow start_time end_time equipment_list coach (rule # rules) p =
     (case applied court dow start_time end_time equipment_list coach rule of
        Inl e \<Rightarrow> True
      | Inr False \<Rightarrow> sums_exactly court dow start_time end_time equipment_list coach rules p
      | Inr True \<Rightarrow>
          (case rule_amount p equipment_list coach rule of
             Inl e \<Rightarrow> True
           | Inr amount \<Rightarrow>
               float_of_decimal amount = Finite amount
               \<and> context_round (p + amount) = p + amount
               \<and> sums_exactly court dow start_time end_time equipment_list coach rules
                     (p + amount)))"


section \<open>Example data\<close>

definition saturday :: date where
  \<comment> \<open>7 November 2026\<close>
  "saturday = 739927"

definition court1 :: court where
  "court1 = \<lparr>court_id = 1, court_name = ''Court 1'', court_type = ''INDOOR'',
     court_is_active = True\<rparr>"

definition indoor_rule :: pricing_rule where
  "indoor_rule = \<lparr>rule_name = ''Indoor Court Premium'', rule_type = ''INDOOR_PREMIUM'',
     multiplier = 12 / 10, flat_fee = 0, is_percentage = True, is_enabled = True, priority = 1,
     rule_start_time = None, rule_end_time = None, applies_to_days = []\<rparr>"

definition peak_rule :: pricing_rule where
  "peak_rule = \<lparr>rule_name = ''Peak Hours'', rule_type = ''PEAK_HOURS'',
     multiplier = 15 / 10, flat_fee = 0, is_percentage = True, is_enabled = True, priority = 2,
     rule_start_time = Some (hm 18 0), rule_end_time = Some (hm 21 0),
     applies_to_days = []\<rparr>"

definition weekend_flat_rule :: pricing_rule where
  "weekend_flat_rule = \<lparr>rule_name = ''Weekend Surcharge'', rule_type = ''WEEKEND'',
     multiplier = 1, flat_fee = 75, is_percentage = False, is_enabled = True, priority = 3,
     rule_start_time = None, rule_end_time = None, applies_to_days = ''5,6''\<rparr>"

definition equipment_fee_rule :: pricing_rule where
  "equipment_fee_rule = \<lparr>rule_name = ''Equipment Rental'', rule_type = ''EQUIPMENT_FEE'',
     multiplier = 1, flat_fee = 50, is_percentage = False, is_enabled = True, priority = 4,
     rule_start_time = None, rule_end_time = None, applies_to_days = []\<rparr>"

definition coach_fee_rule :: pricing_rule where
  "coach_fee_rule = \<lparr>rule_name = ''Coach Fee'', rule_type = ''COACH_FEE'',
     multiplier = 1, flat_fee = 0, is_percentage = False, is_enabled = True, priority = 5,
     rule_start_time = None, rule_end_time = None, applies_to_days = []\<rparr>"

definition racket :: equipment where
  "racket = \<lparr>equipment_id = 1, equipment_name = ''Racket'', equipment_type = ''RACKET'',
     total_quantity = 10\<rparr>"

definition shoes :: equipment where
  "shoes = \<lparr>equipment_id = 2, equipment_name = ''Shoes'', equipment_type = ''SHOES'',
     total_quantity = 5\<rparr>"

definition coach1 :: coach where
  \<comment> \<open>a coach who has been deactivated\<close>
  "coach1 = \<lparr>coach_id = 1, coach_name = ''Asha'', hourly_fee = 200, coach_is_active = False\<rparr>"

definition rule_b :: pricing_rule where
  "rule_b = \<lparr>rule_name = ''B indoor surcharge'', rule_type = ''INDOOR_PREMIUM'',
     multiplier = 1, flat_fee = 100, is_percentage = False, is_enabled = True, priority = 0,
     rule_start_time = None, rule_end_time = None, applies_to_days = []\<rparr>"

definition rule_a :: pricing_rule where
  "rule_a = \<lparr>rule_name = ''A indoor premium'', rule_type = ''INDOOR_PREMIUM'',
     multiplier = 15 / 10, flat_fee = 0, is_percentage = True, is_enabled = True, priority = 0,
     rule_start_time = None, rule_end_time = None, applies_to_days = []\<rparr>"

definition db0 :: database where
  \<comment> \<open>the catalog, with no booking and nobody waiting; the coach works on Saturdays\<close>
  "db0 = \<lparr>courts = [court1], equipments = [racket, shoes], coaches = [coach1],
     coach_availabilities =
       [\<lparr>availability_coach = 1, day_of_week = 5, availability_start_time = hm 6 0,
         availability_end_time = hm 22 0\<rparr>],
     pricing_rules = [indoor_rule, peak_rule, equipment_fee_rule, coach_fee_rule],
     bookings = [], booking_equipments = [], waitlists = []\<rparr>"

definition booking1 :: booking where
  "booking1 = \<lparr>booking_id = 1, booking_user = 7, booking_court = 1, booking_date = saturday,
     booking_start_time = hm 18 0, booking_end_time = hm 19 0, booking_coach = None,
     booking_base_price = 500, booking_total_price = 900, price_breakdown = [],
     booking_status = CONFIRMED, booking_created_at = 1000, booking_updated_at = 1000\<rparr>"

definition entry_late :: waitlist where
  "entry_late = \<lparr>waitlist_id = 1, waitlist_user = 9, waitlist_court = 1,
     waitlist_date = saturday, waitlist_start_time = hm 18 0, waitlist_end_time = hm 19 0,
     waitlist_status = WAITING, created_at = 3000, notified_at = None\<rparr>"

definition entry_other_slot :: waitlist where
  "entry_other_slot = \<lparr>waitlist_id = 2, waitlist_user = 8, waitlist_court = 1,
     waitlist_date = saturday, waitlist_start_time = hm 19 0, waitlist_end_time = hm 20 0,
     waitlist_status = WAITING, created_at = 1500, notified_at = None\<rparr>"

definition entry_early :: waitlist where
  "entry_early = \<lparr>waitlist_id = 3, waitlist_user = 8, waitlist_court = 1,
     waitlist_date = saturday, waitlist_start_time = hm 18 0, waitlist_end_time = hm 19 0,
     waitlist_status = WAITING, created_at = 2000, notified_at = None\<rparr>"

definition db_booked :: database where
  \<comment> \<open>court 1 is taken on Saturday from 18:00 to 19:00\<close>
  "db_booked = db0\<lparr>bookings := [booking1]\<rparr>"

definition db_waiting :: database where
  \<comment> \<open>two users wait for the taken slot, one for the next hour\<close>
  "db_waiting = db_booked\<lparr>waitlists := [entry_late, entry_other_slot, entry_early]\<rparr>"

definition delivered :: "waitlist \<Rightarrow> court \<Rightarrow> bool" where
  \<comment> \<open>every notification goes out\<close>
  "delivered w c = True"


definition entry_notified :: waitlist where
  "entry_notified = \<lparr>waitlist_id = 1, waitlist_user = 8, waitlist_court = 1,
     waitlist_date = saturday, waitlist_start_time = hm 18 0, waitlist_end_time = hm 19 0,
     waitlist_status = NOTIFIED, created_at = 2000, notified_at = Some 4000\<rparr>"

definition db_notified :: database where
  \<comment> \<open>nothing is booked; user 8 was notified about the slot earlier\<close>
  "db_notified = db0\<lparr>waitlists := [entry_notified]\<rparr>"


definition one_percent_rule :: pricing_rule where
  "one_percent_rule = \<lparr>rule_name = ''Indoor levy'', rule_type = ''INDOOR_PREMIUM'',
     multiplier = 101 / 100, flat_fee = 0, is_percentage = True, is_enabled = True,
     priority = 1, rule_start_time = None, rule_end_time = None, applies_to_days = []\<rparr>"

definition premium_137 :: pricing_rule where
  "premium_137 = \<lparr>rule_name = ''Indoor premium 37'', rule_type = ''INDOOR_PREMIUM'',
     multiplier = 137 / 100, flat_fee = 0, is_percentage = True, is_enabled = True,
     priority = 1, rule_start_time = None, rule_end_time = None, applies_to_days = []\<rparr>"

definition thirteenth_price :: decimal where
  \<comment> \<open>21858.32153935865170643544050\<close>
  "thirteenth_price = 2185832153935865170643544050 / 100000000000000000000000"

definition twelve_premiums :: "pricing_rule list" where
  "twelve_premiums =
     [premium_137, premium_137, premium_137, premium_137, premium_137, premium_137,
      premium_137, premium_137, premium_137, premium_137, premium_137, premium_137]"


section \<open>Properties of the pricing engine\<close>

lemmas catalog_defs = saturday_def court1_def indoor_rule_def peak_rule_def
  equipment_fee_rule_def coach_fee_rule_def racket_def shoes_def coach1_def db0_def

lemmas queue_defs = booking1_def entry_late_def entry_other_slot_def entry_early_def
  db_booked_def db_waiting_def

lemmas confirm_defs = confirm_booking_def check_all_resources_available_def
  check_court_available_def check_coach_available_def check_equipment_available_def
  booked_quantity_def confirmed_in_window_def excluded_def truthy_def get_equipment_def
  get_court_def get_coach_def next_id_def

lemmas pricing_defs = calculate_price_def enabled_rules_def apply_rule_def applied_def
  BASE_COURT_PRICE_def time_overlaps_def hm_def rule_item_def base_item_def weekday_def

text \<open>
  Claim C8. The overlap test \<open>start1 < end2 \<and> end1 > start2\<close> gives the same answer when the
  two windows are swapped, and two adjacent windows, one ending at the time \<open>b\<close> where the
  other starts, never overlap, in either order; in particular 9:00 to 10:00 and 10:00 to
  11:00 do not overlap.
\<close>

theorem time_overlaps_symmetric_adjacent:
  "time_overlaps s1 e1 s2 e2 = time_overlaps s2 e2 s1 e1
   \<and> \<not> time_overlaps a b b c
   \<and> \<not> time_overlaps b c a b
   \<and> \<not> time_overlaps (hm 9 0) (hm 10 0) (hm 10 0) (hm 11 0)
   \<and> \<not> time_overlaps (hm 10 0) (hm 11 0) (hm 9 0) (hm 10 0)"
  by (auto simp: time_overlaps_def hm_def)

subsection \<open>Percentage rules and the breakdown\<close>

lemma floor_numeral_divide:
  "\<lfloor>(numeral a :: rat) / numeral b\<rfloor> = numeral a div numeral b"
  "\<lfloor>- (numeral a :: rat) / numeral b\<rfloor> = - numeral a div numeral b"
  "\<lfloor>- ((numeral a :: rat) / numeral b)\<rfloor> = - numeral a div numeral b"
  using floor_divide_of_int_eq[of "numeral a" "numeral b", where ?'a = rat]
    floor_divide_of_int_eq[of "- numeral a" "numeral b", where ?'a = rat]
  by simp_all

lemma ceiling_numeral_divide:
  "\<lceil>(numeral a :: rat) / numeral b\<rceil> = - (- numeral a div numeral b)"
  unfolding ceiling_def by (simp add: floor_numeral_divide)

lemma apply_rule_decimal_percentage:
  assumes "applied court dow st en eqs coach r = Inr True" and "is_percentage r"
  shows "apply_rule_decimal court dow st en eqs coach r (p, bd)
           = Inr (context_round (p + context_round (p * context_round (multiplier r - 1))),
                  bd @ [rule_entry r (context_round (p * context_round (multiplier r - 1)))])"
  using assms by (simp add: apply_rule_decimal_def rule_amount_def)

lemma apply_rules_decimal_sum:
  assumes "apply_rules_decimal court dow st en eqs coach rs (p, bd) = Inr (p', bd')"
    and "sums_exactly court dow st en eqs coach rs p"
    and "map entry_amount bd = map Finite amounts"
    and "sum_list amounts = p"
  shows "\<exists>amounts'. map entry_amount bd' = map Finite amounts' \<and> sum_list amounts' = p'"
  using assms
proof (induction rs arbitrary: p bd amounts)
  case Nil
  then show ?case by auto
next
  case (Cons r rs)
  show ?case
  proof (cases "applied court dow st en eqs coach r")
    case (Inl e)
    with Cons.prems(1) show ?thesis by (simp add: apply_rule_decimal_def)
  next
    case (Inr b)
    show ?thesis
    proof (cases b)
      case False
      with Inr Cons.prems have
        "apply_rules_decimal court dow st en eqs coach rs (p, bd) = Inr (p', bd')"
        "sums_exactly court dow st en eqs coach rs p"
        by (simp_all add: apply_rule_decimal_def)
      then show ?thesis using Cons.prems(3,4) by (rule Cons.IH)
    next
      case True
      show ?thesis
      proof (cases "rule_amount p eqs coach r")
        case (Inl e)
        with Inr True Cons.prems(1) show ?thesis by (simp add: apply_rule_decimal_def)
      next
        case amount: (Inr amount)
        from Inr True amount Cons.prems(2) have
          exact: "float_of_decimal amount = Finite amount"
            "context_round (p + amount) = p + amount"
          and rest: "sums_exactly court dow st en eqs coach rs (p + amount)"
          by simp_all
        from Inr True amount Cons.prems(1) exact have
          run: "apply_rules_decimal court dow st en eqs coach rs
                  (p + amount, bd @ [rule_entry r amount]) = Inr (p', bd')"
          by (simp add: apply_rule_decimal_def)
        have "map entry_amount (bd @ [rule_entry r amount]) = map Finite (amounts @ [amount])"
          using Cons.prems(3) exact by (simp add: rule_entry_def)
        moreover have "sum_list (amounts @ [amount]) = p + amount"
          using Cons.prems(4) by simp
        ultimately show ?thesis by (rule Cons.IH[OF run rest])
      qed
    qed
  qed
qed

lemma base_entry_amount: "entry_amount (base_entry BASE_COURT_PRICE) = Finite BASE_COURT_PRICE"
  by (simp add: base_entry_def BASE_COURT_PRICE_def context_round_def float_of_decimal_def round_to_binary64_def
        round_half_even_def magnitude_def scaleb_def compute_floorlog Let_def
        floor_numeral_divide ceiling_numeral_divide)

lemma calculate_price_decimal_sum:
  assumes "calculate_price_decimal rules court date st en eqs coach = Inr res"
    and "sums_exactly court (weekday date) st en eqs coach (enabled_rules rules)
           BASE_COURT_PRICE"
  shows "\<exists>amounts. map entry_amount (result_breakdown res) = map Finite amounts
           \<and> sum_list amounts = result_total res"
proof -
  from assms(1) obtain p bd where
    run: "apply_rules_decimal court (weekday date) st en eqs coach (enabled_rules rules)
            (BASE_COURT_PRICE, [base_entry BASE_COURT_PRICE]) = Inr (p, bd)"
    and res: "res = \<lparr>result_total = p, result_base = BASE_COURT_PRICE, result_breakdown = bd\<rparr>"
    by (auto simp: calculate_price_decimal_def split: sum.splits)
  have "map entry_amount [base_entry BASE_COURT_PRICE] = map Finite [BASE_COURT_PRICE]"
    by (simp add: base_entry_amount)
  moreover have "sum_list [BASE_COURT_PRICE] = BASE_COURT_PRICE" by simp
  ultimately have "\<exists>amounts. map entry_amount bd = map Finite amounts \<and> sum_list amounts = p"
    by (rule apply_rules_decimal_sum[OF run assms(2)])
  with res show ?thesis by simp
qed

lemma indoor_peak_decimal:
  "calculate_price_decimal [indoor_rule, peak_rule] court1 saturday (hm 18 0) (hm 19 0) [] None
     = Inr \<lparr>result_total = 900, result_base = 500,
            result_breakdown = [base_entry 500, rule_entry indoor_rule 100,
                                rule_entry peak_rule 300]\<rparr>"
  by (simp add: calculate_price_decimal_def enabled_rules_def apply_rule_decimal_def
        rule_amount_def applied_def BASE_COURT_PRICE_def time_overlaps_def hm_def weekday_def catalog_defs context_round_def float_of_decimal_def round_to_binary64_def
        round_half_even_def magnitude_def scaleb_def compute_floorlog Let_def
        floor_numeral_divide ceiling_numeral_divide)

lemma indoor_peak_amounts:
  "map entry_amount [base_entry 500, rule_entry indoor_rule 100, rule_entry peak_rule 300]
     = [Finite 500, Finite 100, Finite 300]"
  by (simp add: base_entry_def rule_entry_def context_round_def float_of_decimal_def round_to_binary64_def
        round_half_even_def magnitude_def scaleb_def compute_floorlog Let_def
        floor_numeral_divide ceiling_numeral_divide)

lemma indoor_peak_sums_exactly:
  "sums_exactly court1 (weekday saturday) (hm 18 0) (hm 19 0) [] None
     (enabled_rules [indoor_rule, peak_rule]) BASE_COURT_PRICE"
  by (simp add: calculate_price_decimal_def enabled_rules_def apply_rule_decimal_def
        rule_amount_def applied_def BASE_COURT_PRICE_def time_overlaps_def hm_def weekday_def catalog_defs context_round_def float_of_decimal_def round_to_binary64_def
        round_half_even_def magnitude_def scaleb_def compute_floorlog Let_def
        floor_numeral_divide ceiling_numeral_divide)

text \<open>
  Claim C3, as the code has it. An applicable percentage rule computes
  \<open>current_price * (multiplier - 1)\<close> in \<^verbatim>\<open>Decimal\<close> arithmetic, every operation rounded to 28
  significant digits, adds it to the running price and records it, converted to
  \<^verbatim>\<open>float\<close>, in the breakdown: the increment, not the new total. Two such rules in a row
  compound: the second works on the price the first left. Whenever the evaluation returns
  and, along the run, no amount is changed by the conversion to \<^verbatim>\<open>float\<close> and no addition to
  the price is rounded, the amounts of the breakdown, base entry included, add up to
  \<open>total_price\<close>. With base 500, Indoor +20% (priority 1) and Peak +50% (priority 2), an
  indoor booking in the peak window goes 500, 600, 900, with the amounts 500, 100, 300.
  Without the condition the sum can differ from \<open>total_price\<close>: see the counterexample below.
\<close>

theorem percentage_rules_compound:
  "(applied court dow st en eqs coach r = Inr True \<longrightarrow> is_percentage r \<longrightarrow>
      apply_rule_decimal court dow st en eqs coach r (p, bd)
        = Inr (context_round (p + context_round (p * context_round (multiplier r - 1))),
               bd @ [rule_entry r (context_round (p * context_round (multiplier r - 1)))])
      \<and> entry_amount (rule_entry r (context_round (p * context_round (multiplier r - 1))))
          = float_of_decimal (context_round (p * context_round (multiplier r - 1))))
   \<and> (applied court dow st en eqs coach r1 = Inr True \<longrightarrow> is_percentage r1 \<longrightarrow>
      applied court dow st en eqs coach r2 = Inr True \<longrightarrow> is_percentage r2 \<longrightarrow>
      apply_rules_decimal court dow st en eqs coach [r1, r2] (p, bd)
        = (let d1 = context_round (p * context_round (multiplier r1 - 1));
               p1 = context_round (p + d1);
               d2 = context_round (p1 * context_round (multiplier r2 - 1))
           in Inr (context_round (p1 + d2), bd @ [rule_entry r1 d1, rule_entry r2 d2])))
   \<and> (calculate_price_decimal rules court' date st' en' eqs' coach' = Inr res \<longrightarrow>
      sums_exactly court' (weekday date) st' en' eqs' coach' (enabled_rules rules)
        BASE_COURT_PRICE \<longrightarrow>
      (\<exists>amounts. map entry_amount (result_breakdown res) = map Finite amounts
         \<and> sum_list amounts = result_total res))
   \<and> calculate_price_decimal [indoor_rule, peak_rule] court1 saturday (hm 18 0) (hm 19 0) []
        None
        = Inr \<lparr>result_total = 900, result_base = 500,
               result_breakdown = [base_entry 500, rule_entry indoor_rule 100,
                                   rule_entry peak_rule 300]\<rparr>
   \<and> map entry_amount [base_entry 500, rule_entry indoor_rule 100, rule_entry peak_rule 300]
        = [Finite 500, Finite 100, Finite 300]"
proof (intro conjI impI)
  assume "applied court dow st en eqs coach r = Inr True" "is_percentage r"
  then show "apply_rule_decimal court dow st en eqs coach r (p, bd)
        = Inr (context_round (p + context_round (p * context_round (multiplier r - 1))),
               bd @ [rule_entry r (context_round (p * context_round (multiplier r - 1)))])"
    by (rule apply_rule_decimal_percentage)
next
  show "entry_amount (rule_entry r (context_round (p * context_round (multiplier r - 1))))
          = float_of_decimal (context_round (p * context_round (multiplier r - 1)))"
    by (simp add: rule_entry_def)
next
  assume "applied court dow st en eqs coach r1 = Inr True" "is_percentage r1"
    "applied court dow st en eqs coach r2 = Inr True" "is_percentage r2"
  then show "apply_rules_decimal court dow st en eqs coach [r1, r2] (p, bd)
        = (let d1 = context_round (p * context_round (multiplier r1 - 1));
               p1 = context_round (p + d1);
               d2 = context_round (p1 * context_round (multiplier r2 - 1))
           in Inr (context_round (p1 + d2), bd @ [rule_entry r1 d1, rule_entry r2 d2]))"
    by (simp add: apply_rule_decimal_percentage Let_def)
next
  assume "calculate_price_decimal rules court' date st' en' eqs' coach' = Inr res"
    "sums_exactly court' (weekday date) st' en' eqs' coach' (enabled_rules rules)
       BASE_COURT_PRICE"
  then show "\<exists>amounts. map entry_amount (result_breakdown res) = map Finite amounts
         \<and> sum_list amounts = result_total res"
    by (rule calculate_price_decimal_sum)
next
  show "calculate_price_decimal [indoor_rule, peak_rule] court1 saturday (hm 18 0) (hm 19 0)
        [] None
        = Inr \<lparr>result_total = 900, result_base = 500,
               result_breakdown = [base_entry 500, rule_entry indoor_rule 100,
                                   rule_entry peak_rule 300]\<rparr>"
    by (rule indoor_peak_decimal)
next
  show "map entry_amount [base_entry 500, rule_entry indoor_rule 100, rule_entry peak_rule 300]
        = [Finite 500, Finite 100, Finite 300]"
    by (rule indoor_peak_amounts)
qed

theorem percentage_rules_compound_witness:
  "applied court1 5 (hm 18 0) (hm 19 0) [] None indoor_rule = Inr True
   \<and> is_percentage indoor_rule
   \<and> applied court1 5 (hm 18 0) (hm 19 0) [] None peak_rule = Inr True
   \<and> is_percentage peak_rule
   \<and> sums_exactly court1 (weekday saturday) (hm 18 0) (hm 19 0) [] None
       (enabled_rules [indoor_rule, peak_rule]) BASE_COURT_PRICE
   \<and> apply_rule_decimal court1 5 (hm 18 0) (hm 19 0) [] None indoor_rule
         (500, [base_entry 500])
       = Inr (600, [base_entry 500, rule_entry indoor_rule 100])
   \<and> entry_amount (rule_entry indoor_rule 100) = float_of_decimal 100
   \<and> apply_rules_decimal court1 5 (hm 18 0) (hm 19 0) [] None [indoor_rule, peak_rule]
         (500, [base_entry 500])
       = Inr (900, [base_entry 500, rule_entry indoor_rule 100, rule_entry peak_rule 300])
   \<and> (\<exists>amounts. map entry_amount [base_entry 500, rule_entry indoor_rule 100,
                                     rule_entry peak_rule 300] = map Finite amounts
         \<and> sum_list amounts = 900)"
proof -
  let ?res = "\<lparr>result_total = 900, result_base = 500,
                result_breakdown = [base_entry 500, rule_entry indoor_rule 100,
                                    rule_entry peak_rule 300]\<rparr>"
  have h: "applied court1 5 (hm 18 0) (hm 19 0) [] None indoor_rule = Inr True"
    "is_percentage indoor_rule"
    "applied court1 5 (hm 18 0) (hm 19 0) [] None peak_rule = Inr True"
    "is_percentage peak_rule"
    by (simp_all add: applied_def time_overlaps_def hm_def catalog_defs)
  have s: "sums_exactly court1 (weekday saturday) (hm 18 0) (hm 19 0) [] None
       (enabled_rules [indoor_rule, peak_rule]) BASE_COURT_PRICE"
    by (simp add: calculate_price_decimal_def enabled_rules_def apply_rule_decimal_def
        rule_amount_def applied_def BASE_COURT_PRICE_def time_overlaps_def hm_def weekday_def catalog_defs context_round_def float_of_decimal_def round_to_binary64_def
        round_half_even_def magnitude_def scaleb_def compute_floorlog Let_def
        floor_numeral_divide ceiling_numeral_divide)
  have c: "calculate_price_decimal [indoor_rule, peak_rule] court1 saturday (hm 18 0)
             (hm 19 0) [] None = Inr ?res"
    by (simp add: calculate_price_decimal_def enabled_rules_def apply_rule_decimal_def
        rule_amount_def applied_def BASE_COURT_PRICE_def time_overlaps_def hm_def weekday_def catalog_defs context_round_def float_of_decimal_def round_to_binary64_def
        round_half_even_def magnitude_def scaleb_def compute_floorlog Let_def
        floor_numeral_divide ceiling_numeral_divide)
  have m: "context_round (multiplier indoor_rule - 1) = 2 / 10"
    "context_round (multiplier peak_rule - 1) = 5 / 10"
    "context_round (500 * (2 / 10)) = 100" "context_round (500 + 100) = 600"
    "context_round (600 * (5 / 10)) = 300" "context_round (600 + 300) = 900"
    by (simp_all add: catalog_defs context_round_def float_of_decimal_def round_to_binary64_def
        round_half_even_def magnitude_def scaleb_def compute_floorlog Let_def
        floor_numeral_divide ceiling_numeral_divide)
  note T = percentage_rules_compound
    [where court = court1 and dow = 5 and st = "hm 18 0" and en = "hm 19 0" and eqs = "[]"
       and coach = None and r = indoor_rule and p = 500 and bd = "[base_entry 500]"
       and ?r1.0 = indoor_rule and ?r2.0 = peak_rule
       and rules = "[indoor_rule, peak_rule]" and court' = court1 and date = saturday
       and st' = "hm 18 0" and en' = "hm 19 0" and eqs' = "[]" and coach' = None
       and res = ?res]
  from T h s c have
    "apply_rule_decimal court1 5 (hm 18 0) (hm 19 0) [] None indoor_rule
         (500, [base_entry 500])
       = Inr (context_round (500 + context_round (500 * context_round (multiplier indoor_rule - 1))),
              [base_entry 500] @ [rule_entry indoor_rule
                 (context_round (500 * context_round (multiplier indoor_rule - 1)))])"
    "entry_amount (rule_entry indoor_rule
         (context_round (500 * context_round (multiplier indoor_rule - 1))))
       = float_of_decimal (context_round (500 * context_round (multiplier indoor_rule - 1)))"
    "apply_rules_decimal court1 5 (hm 18 0) (hm 19 0) [] None [indoor_rule, peak_rule]
         (500, [base_entry 500])
       = (let d1 = context_round (500 * context_round (multiplier indoor_rule - 1));
              p1 = context_round (500 + d1);
              d2 = context_round (p1 * context_round (multiplier peak_rule - 1))
          in Inr (context_round (p1 + d2),
                  [base_entry 500] @ [rule_entry indoor_rule d1, rule_entry peak_rule d2]))"
    "\<exists>amounts. map entry_amount (result_breakdown ?res) = map Finite amounts
         \<and> sum_list amounts = result_total ?res"
    by blast+
  then show ?thesis using h s unfolding m Let_def by simp
qed

text \<open>
  Three percentage rules, +1%, +1% and +20%, on an indoor court. The price goes 500, 505,
  510.05, 612.06 and the amounts are 5, 5.05 and 102.01. Neither 5.05 nor 102.01 is a
  binary64 number, so the breakdown holds their neighbours, and the recorded amounts add
  up to a number other than 612.06, both exactly and when added as floats from the left
  (612.0600000000001, which is not \<^verbatim>\<open>float\<close> of the total either).
\<close>

theorem breakdown_sum_differs_counterexample:
  "calculate_price_decimal [one_percent_rule, one_percent_rule, indoor_rule] court1 saturday
       (hm 18 0) (hm 19 0) [] None
     = Inr \<lparr>result_total = 61206 / 100, result_base = 500,
            result_breakdown = [base_entry 500, rule_entry one_percent_rule 5,
                                rule_entry one_percent_rule (505 / 100),
                                rule_entry indoor_rule (10201 / 100)]\<rparr>
   \<and> map entry_amount [base_entry 500, rule_entry one_percent_rule 5,
                       rule_entry one_percent_rule (505 / 100),
                       rule_entry indoor_rule (10201 / 100)]
       = [Finite 500, Finite 5, Finite (5685794529555251 / 1125899906842624),
          Finite (7178315593563505 / 70368744177664)]
   \<and> \<not> (\<exists>amounts. map entry_amount [base_entry 500, rule_entry one_percent_rule 5,
                         rule_entry one_percent_rule (505 / 100),
                         rule_entry indoor_rule (10201 / 100)] = map Finite amounts
            \<and> sum_list amounts = 61206 / 100)
   \<and> float_sum (map entry_amount [base_entry 500, rule_entry one_percent_rule 5,
                       rule_entry one_percent_rule (505 / 100),
                       rule_entry indoor_rule (10201 / 100)])
       = Finite (5383736695172629 / 8796093022208)
   \<and> float_of_decimal (61206 / 100) = Finite (1345934173793157 / 2199023255552)"
proof -
  let ?bd = "[base_entry 500, rule_entry one_percent_rule 5,
              rule_entry one_percent_rule (505 / 100), rule_entry indoor_rule (10201 / 100)]"
  have run: "calculate_price_decimal [one_percent_rule, one_percent_rule, indoor_rule] court1
       saturday (hm 18 0) (hm 19 0) [] None
     = Inr \<lparr>result_total = 61206 / 100, result_base = 500, result_breakdown = ?bd\<rparr>"
    by (simp add: calculate_price_decimal_def enabled_rules_def apply_rule_decimal_def
        rule_amount_def applied_def BASE_COURT_PRICE_def time_overlaps_def hm_def weekday_def catalog_defs one_percent_rule_def context_round_def float_of_decimal_def round_to_binary64_def
        round_half_even_def magnitude_def scaleb_def compute_floorlog Let_def
        floor_numeral_divide ceiling_numeral_divide)
  have amounts: "map entry_amount ?bd
       = [Finite 500, Finite 5, Finite (5685794529555251 / 1125899906842624),
          Finite (7178315593563505 / 70368744177664)]"
    by (simp add: base_entry_def rule_entry_def context_round_def float_of_decimal_def round_to_binary64_def
        round_half_even_def magnitude_def scaleb_def compute_floorlog Let_def
        floor_numeral_divide ceiling_numeral_divide)
  have differs: "\<not> (\<exists>amounts. map entry_amount ?bd = map Finite amounts
            \<and> sum_list amounts = 61206 / 100)"
  proof
    assume "\<exists>amounts. map entry_amount ?bd = map Finite amounts
            \<and> sum_list amounts = 61206 / 100"
    then obtain xs :: "rat list" where
      xs: "map Finite xs = [Finite 500, Finite 5, Finite (5685794529555251 / 1125899906842624),
          Finite (7178315593563505 / 70368744177664)]"
      and total: "sum_list xs = 61206 / 100"
      unfolding amounts by metis
    from xs have "xs = [500, 5, 5685794529555251 / 1125899906842624,
                     7178315593563505 / 70368744177664]"
      by (auto simp: map_eq_Cons_conv)
    with total show False by simp
  qed
  have fsum: "float_sum [Finite 500, Finite 5, Finite (5685794529555251 / 1125899906842624),
              Finite (7178315593563505 / 70368744177664)]
     = Finite (5383736695172629 / 8796093022208)"
    by (simp add: float_sum_def context_round_def float_of_decimal_def round_to_binary64_def
        round_half_even_def magnitude_def scaleb_def compute_floorlog Let_def
        floor_numeral_divide ceiling_numeral_divide)
  have ftotal: "float_of_decimal (61206 / 100) = Finite (1345934173793157 / 2199023255552)"
    by (simp add: context_round_def float_of_decimal_def round_to_binary64_def
        round_half_even_def magnitude_def scaleb_def compute_floorlog Let_def
        floor_numeral_divide ceiling_numeral_divide)
  from run amounts differs fsum ftotal show ?thesis by (simp only: simp_thms)
qed

text \<open>
  An addition to the price that is rounded: thirteen +37% rules on an indoor court. After
  twelve of them the price is 21858.32153935865170643544050; the thirteenth amount,
  8087.578969562701131381112985, has 28 digits, and the sum of the two has 29, so the new
  price is the sum rounded to 29945.90050892135283781655348.
\<close>

lemma thirteenth_addition_rounded:
  "map_sum id result_total
     (calculate_price_decimal twelve_premiums court1 saturday (hm 18 0) (hm 19 0) [] None)
     = Inr thirteenth_price
   \<and> apply_rule_decimal court1 5 (hm 18 0) (hm 19 0) [] None premium_137 (thirteenth_price, [])
     = Inr (2994590050892135283781655348 / 100000000000000000000000,
            [rule_entry premium_137 (8087578969562701131381112985 / 1000000000000000000000000)])
   \<and> thirteenth_price + 8087578969562701131381112985 / 1000000000000000000000000
       \<noteq> 2994590050892135283781655348 / 100000000000000000000000"
  by (simp add: calculate_price_decimal_def enabled_rules_def apply_rule_decimal_def
        rule_amount_def applied_def BASE_COURT_PRICE_def time_overlaps_def hm_def weekday_def catalog_defs premium_137_def twelve_premiums_def
        thirteenth_price_def context_round_def float_of_decimal_def round_to_binary64_def
        round_half_even_def magnitude_def scaleb_def compute_floorlog Let_def
        floor_numeral_divide ceiling_numeral_divide)


subsection \<open>Flat fees\<close>

lemma get_equipments_length:
  "get_equipments db ids = Inr es \<Longrightarrow> length es = length ids"
  by (induction ids arbitrary: es) (auto split: sum.splits)

lemma apply_rule_flat:
  assumes "applied court dow st en eqs coach r = Inr True" and "\<not> is_percentage r"
  shows "apply_rule court dow st en eqs coach r (p, bd) =
     (if rule_type r = ''EQUIPMENT_FEE''
      then Inr (p + flat_fee r * of_nat (length eqs),
                bd @ [rule_item r (flat_fee r * of_nat (length eqs))])
      else if rule_type r = ''COACH_FEE''
      then (case coach of None \<Rightarrow> Inl AttributeError
            | Some c \<Rightarrow> Inr (p + hourly_fee c, bd @ [rule_item r (hourly_fee c)]))
      else Inr (p + flat_fee r, bd @ [rule_item r (flat_fee r)]))"
  using assms by (simp add: apply_rule_def Let_def)

lemma applied_coach_fee:
  assumes "applied court dow st en eqs coach r = Inr True" and "rule_type r = ''COACH_FEE''"
  shows "coach \<noteq> None"
  using assms by (simp add: applied_def)

text \<open>
  Claim C6. For an applicable rule that is not a percentage rule: an \<^verbatim>\<open>EQUIPMENT_FEE\<close> rule
  adds \<open>flat_fee\<close> times the number of entries of the equipment list, which has one entry
  per line item of the request whatever the requested quantities; a \<^verbatim>\<open>COACH_FEE\<close> rule
  adds the coach's \<open>hourly_fee\<close> and does not read its own \<open>flat_fee\<close>; any other rule adds
  its \<open>flat_fee\<close>. A fee of 50 with two equipment lines contributes 100, also when the
  lines ask for 3 and 2 units, and a \<^verbatim>\<open>COACH_FEE\<close> rule with \<open>flat_fee = 0\<close> and a coach at
  200 contributes 200.
\<close>

theorem flat_fee_rules:
  "(applied court dow st en eqs coach r = Inr True \<longrightarrow> \<not> is_percentage r \<longrightarrow>
      (rule_type r = ''EQUIPMENT_FEE'' \<longrightarrow>
         apply_rule court dow st en eqs coach r (p, bd)
           = Inr (p + flat_fee r * of_nat (length eqs),
                  bd @ [rule_item r (flat_fee r * of_nat (length eqs))]))
      \<and> (rule_type r = ''COACH_FEE'' \<longrightarrow>
           (\<exists>c. coach = Some c
                \<and> apply_rule court dow st en eqs coach r (p, bd)
                    = Inr (p + hourly_fee c, bd @ [rule_item r (hourly_fee c)])))
      \<and> (rule_type r \<noteq> ''EQUIPMENT_FEE'' \<longrightarrow> rule_type r \<noteq> ''COACH_FEE'' \<longrightarrow>
           apply_rule court dow st en eqs coach r (p, bd)
             = Inr (p + flat_fee r, bd @ [rule_item r (flat_fee r)])))
   \<and> (get_equipments db (map fst equipment_list) = Inr equipment_instances \<longrightarrow>
        length equipment_instances = length equipment_list)
   \<and> flat_fee equipment_fee_rule = 50
   \<and> apply_rule court1 5 (hm 18 0) (hm 19 0) [racket, shoes] None equipment_fee_rule
         (500, [base_item 500])
       = Inr (600, [base_item 500, rule_item equipment_fee_rule 100])
   \<and> flat_fee coach_fee_rule = 0 \<and> hourly_fee coach1 = 200
   \<and> apply_rule court1 5 (hm 18 0) (hm 19 0) [] (Some coach1) coach_fee_rule
         (500, [base_item 500])
       = Inr (700, [base_item 500, rule_item coach_fee_rule 200])
   \<and> map (\<lambda>b. map item_amount (price_breakdown b))
         (bookings (snd (confirm_booking 5000 7 1 saturday (hm 18 0) (hm 19 0)
                           [(1, 3), (2, 2)] None db0)))
       = [[500, 100, 300, 100]]"
proof (intro conjI impI)
  assume a: "applied court dow st en eqs coach r = Inr True" "\<not> is_percentage r"
  {
    assume "rule_type r = ''EQUIPMENT_FEE''"
    then show "apply_rule court dow st en eqs coach r (p, bd)
           = Inr (p + flat_fee r * of_nat (length eqs),
                  bd @ [rule_item r (flat_fee r * of_nat (length eqs))])"
      using a by (simp add: apply_rule_flat)
  next
    assume t: "rule_type r = ''COACH_FEE''"
    with a obtain c where "coach = Some c"
      using applied_coach_fee by blast
    then show "\<exists>c. coach = Some c
                \<and> apply_rule court dow st en eqs coach r (p, bd)
                    = Inr (p + hourly_fee c, bd @ [rule_item r (hourly_fee c)])"
      using a t by (simp add: apply_rule_flat)
  next
    assume "rule_type r \<noteq> ''EQUIPMENT_FEE''" "rule_type r \<noteq> ''COACH_FEE''"
    then show "apply_rule court dow st en eqs coach r (p, bd)
             = Inr (p + flat_fee r, bd @ [rule_item r (flat_fee r)])"
      using a by (simp add: apply_rule_flat)
  }
next
  assume "get_equipments db (map fst equipment_list) = Inr equipment_instances"
  then show "length equipment_instances = length equipment_list"
    using get_equipments_length by fastforce
next
  show "flat_fee equipment_fee_rule = 50" by (simp add: catalog_defs)
  show "flat_fee coach_fee_rule = 0" by (simp add: catalog_defs)
  show "hourly_fee coach1 = 200" by (simp add: catalog_defs)
  show "apply_rule court1 5 (hm 18 0) (hm 19 0) [racket, shoes] None equipment_fee_rule
         (500, [base_item 500])
       = Inr (600, [base_item 500, rule_item equipment_fee_rule 100])"
    by (simp add: apply_rule_def applied_def catalog_defs)
  show "apply_rule court1 5 (hm 18 0) (hm 19 0) [] (Some coach1) coach_fee_rule
         (500, [base_item 500])
       = Inr (700, [base_item 500, rule_item coach_fee_rule 200])"
    by (simp add: apply_rule_def applied_def catalog_defs)
  show "map (\<lambda>b. map item_amount (price_breakdown b))
         (bookings (snd (confirm_booking 5000 7 1 saturday (hm 18 0) (hm 19 0)
                           [(1, 3), (2, 2)] None db0)))
       = [[500, 100, 300, 100]]"
    by (simp add: confirm_defs pricing_defs catalog_defs)
qed

lemma weekend_days: "applicable_days ''5,6'' = Inr [5, 6]"
  by (simp add: applicable_days_def py_int_def strip_def is_space_def digit_val_def)

theorem flat_fee_rules_witness:
  "applied court1 5 (hm 18 0) (hm 19 0) [racket, shoes] (Some coach1) equipment_fee_rule = Inr True
   \<and> \<not> is_percentage equipment_fee_rule
   \<and> apply_rule court1 5 (hm 18 0) (hm 19 0) [racket, shoes] (Some coach1) equipment_fee_rule
         (500, [base_item 500])
       = Inr (600, [base_item 500, rule_item equipment_fee_rule 100])
   \<and> applied court1 5 (hm 18 0) (hm 19 0) [racket, shoes] (Some coach1) coach_fee_rule = Inr True
   \<and> \<not> is_percentage coach_fee_rule
   \<and> apply_rule court1 5 (hm 18 0) (hm 19 0) [racket, shoes] (Some coach1) coach_fee_rule
         (500, [base_item 500])
       = Inr (700, [base_item 500, rule_item coach_fee_rule 200])
   \<and> applied court1 5 (hm 18 0) (hm 19 0) [racket, shoes] (Some coach1) weekend_flat_rule = Inr True
   \<and> \<not> is_percentage weekend_flat_rule
   \<and> apply_rule court1 5 (hm 18 0) (hm 19 0) [racket, shoes] (Some coach1) weekend_flat_rule
         (500, [base_item 500])
       = Inr (575, [base_item 500, rule_item weekend_flat_rule 75])
   \<and> get_equipments \<lparr>courts = [], equipments = [racket, shoes], coaches = [],
        coach_availabilities = [], pricing_rules = [], bookings = [], booking_equipments = [],
        waitlists = []\<rparr> (map fst [(1, 3), (2, 2)]) = Inr [racket, shoes]
   \<and> length [racket, shoes] = length [(1 :: nat, 3 :: int), (2, 2)]"
proof -
  let ?db = "\<lparr>courts = [], equipments = [racket, shoes], coaches = [],
        coach_availabilities = [], pricing_rules = [], bookings = [], booking_equipments = [],
        waitlists = []\<rparr>"
  have g: "get_equipments ?db (map fst [(1, 3), (2, 2)]) = Inr [racket, shoes]"
    by (simp add: get_equipment_def catalog_defs weekend_flat_rule_def)
  have h: "applied court1 5 (hm 18 0) (hm 19 0) [racket, shoes] (Some coach1) equipment_fee_rule = Inr True"
    "applied court1 5 (hm 18 0) (hm 19 0) [racket, shoes] (Some coach1) coach_fee_rule = Inr True"
    "applied court1 5 (hm 18 0) (hm 19 0) [racket, shoes] (Some coach1) weekend_flat_rule = Inr True"
    by (simp_all add: applied_def catalog_defs weekend_flat_rule_def weekend_days)
  have t: "\<not> is_percentage equipment_fee_rule" "\<not> is_percentage coach_fee_rule"
    "\<not> is_percentage weekend_flat_rule"
    "rule_type equipment_fee_rule = ''EQUIPMENT_FEE''" "rule_type coach_fee_rule = ''COACH_FEE''"
    "rule_type weekend_flat_rule \<noteq> ''EQUIPMENT_FEE''" "rule_type weekend_flat_rule \<noteq> ''COACH_FEE''"
    by (simp_all add: catalog_defs weekend_flat_rule_def)
  have v: "flat_fee equipment_fee_rule = 50" "hourly_fee coach1 = 200" "flat_fee weekend_flat_rule = 75"
    by (simp_all add: catalog_defs weekend_flat_rule_def)
  note T = flat_fee_rules[of court1 5 "hm 18 0" "hm 19 0" "[racket, shoes]" "Some coach1" _
      500 "[base_item 500]" ?db "[(1, 3), (2, 2)]" "[racket, shoes]"]
  from T[of equipment_fee_rule] h t have 1:
    "apply_rule court1 5 (hm 18 0) (hm 19 0) [racket, shoes] (Some coach1) equipment_fee_rule
         (500, [base_item 500])
       = Inr (500 + flat_fee equipment_fee_rule * of_nat (length [racket, shoes]),
              [base_item 500] @ [rule_item equipment_fee_rule
                 (flat_fee equipment_fee_rule * of_nat (length [racket, shoes]))])"
    by blast
  from T[of coach_fee_rule] h t have 2:
    "\<exists>c. Some coach1 = Some c \<and>
      apply_rule court1 5 (hm 18 0) (hm 19 0) [racket, shoes] (Some coach1) coach_fee_rule
         (500, [base_item 500])
       = Inr (500 + hourly_fee c, [base_item 500] @ [rule_item coach_fee_rule (hourly_fee c)])"
    by blast
  from T[of weekend_flat_rule] h t have 3:
    "apply_rule court1 5 (hm 18 0) (hm 19 0) [racket, shoes] (Some coach1) weekend_flat_rule
         (500, [base_item 500])
       = Inr (500 + flat_fee weekend_flat_rule,
              [base_item 500] @ [rule_item weekend_flat_rule (flat_fee weekend_flat_rule)])"
    by blast
  from T[of equipment_fee_rule] g have 4: "length [racket, shoes] = length [(1 :: nat, 3 :: int), (2, 2)]"
    by blast
  from 1 2 3 4 g h t show ?thesis by (simp add: v)
qed

subsection \<open>The order of the rules\<close>

text \<open>
  Claim C4. The claim is that enabled rules of equal priority are evaluated by ascending
  name. \<open>calculate_price\<close> orders by priority only, so two rules of equal priority are
  evaluated in the order of the table: with the flat surcharge B stored before the
  percentage premium A, B is applied first and the total is 900, while the order by
  (priority, name) applies A first and gives 850.
\<close>

theorem equal_priority_rules_keep_table_order:
  "priority rule_b = priority rule_a \<and> rule_name rule_a < rule_name rule_b
   \<and> is_enabled rule_a \<and> is_enabled rule_b
   \<and> enabled_rules [rule_b, rule_a] = [rule_b, rule_a]
   \<and> rules_by_priority_and_name [rule_b, rule_a] = [rule_a, rule_b]
   \<and> calculate_price [rule_b, rule_a] court1 saturday (hm 18 0) (hm 19 0) [] None
       = Inr \<lparr>total_price = 900, base_price = 500,
              breakdown = [base_item 500, rule_item rule_b 100, rule_item rule_a 300]\<rparr>
   \<and> calculate_price [rule_a, rule_b] court1 saturday (hm 18 0) (hm 19 0) [] None
       = Inr \<lparr>total_price = 850, base_price = 500,
              breakdown = [base_item 500, rule_item rule_a 250, rule_item rule_b 100]\<rparr>"
  by (simp add: pricing_defs rules_by_priority_and_name_def catalog_defs rule_a_def rule_b_def)

section \<open>Properties of the views and the waitlist\<close>



subsection \<open>A slot that is already taken\<close>

lemma get_court_Inr:
  "list_ex (\<lambda>c. court_id c = cid) (courts db) \<Longrightarrow>
   \<exists>c. get_court db cid = Inr c \<and> court_id c = cid"
  by (auto simp: get_court_def list_ex_iff find_None_iff split: option.splits
           dest: find_Some_iff[THEN iffD1])

text \<open>
  Claim C1. When the court of the request has a \<^verbatim>\<open>CONFIRMED\<close> booking on the requested date
  whose window overlaps the requested one, \<open>confirm_booking\<close> answers \<open>SlotFull\<close> (status
  409, the offer to join the waitlist), which is neither the generic error response nor
  the list of availability errors, and it returns the database as it was: no booking and
  no line item is created. The court of a booking is a row of the catalog (the foreign key
  of the model).
\<close>

theorem slot_taken:
  assumes fk: "booking_courts_exist db"
    and taken: "\<exists>b \<in> set (bookings db). booking_court b = cid \<and> booking_date b = date
                  \<and> booking_status b = CONFIRMED
                  \<and> time_overlaps start_time end_time (booking_start_time b) (booking_end_time b)"
  shows "confirm_booking now user cid date start_time end_time equipment_list coach db
           = (SlotFull, db)
         \<and> SlotFull \<noteq> ErrorResponse e \<and> SlotFull \<noteq> NotAvailable errs
         \<and> status_code SlotFull = 409"
proof -
  from taken obtain b where b: "b \<in> set (bookings db)" "booking_court b = cid"
    "confirmed_in_window date start_time end_time b"
    by (auto simp: confirmed_in_window_def time_overlaps_def)
  from fk b have "list_ex (\<lambda>c. court_id c = cid) (courts db)"
    by (auto simp: booking_courts_exist_def list_all_iff)
  then obtain c where c: "get_court db cid = Inr c" "court_id c = cid"
    using get_court_Inr by blast
  from b c have "filter (\<lambda>b. booking_court b = court_id c
              \<and> confirmed_in_window date start_time end_time b) (bookings db) \<noteq> []"
    by (auto simp: filter_empty_conv)
  with c show ?thesis
    by (simp add: confirm_booking_def status_code_def)
qed

theorem slot_taken_witness:
  "booking_courts_exist db_booked
   \<and> booking1 \<in> set (bookings db_booked) \<and> booking_court booking1 = 1
   \<and> booking_date booking1 = saturday \<and> booking_status booking1 = CONFIRMED
   \<and> time_overlaps (hm 18 30) (hm 19 30) (booking_start_time booking1) (booking_end_time booking1)
   \<and> confirm_booking 5000 8 1 saturday (hm 18 30) (hm 19 30) [(1, 2)] (Some 1) db_booked
       = (SlotFull, db_booked)"
proof -
  have fk: "booking_courts_exist db_booked"
    by (simp add: booking_courts_exist_def catalog_defs queue_defs)
  have b: "booking1 \<in> set (bookings db_booked)" "booking_court booking1 = 1"
    "booking_date booking1 = saturday" "booking_status booking1 = CONFIRMED"
    "time_overlaps (hm 18 30) (hm 19 30) (booking_start_time booking1) (booking_end_time booking1)"
    by (simp_all add: catalog_defs queue_defs time_overlaps_def hm_def)
  then have "\<exists>b \<in> set (bookings db_booked). booking_court b = 1 \<and> booking_date b = saturday
                  \<and> booking_status b = CONFIRMED
                  \<and> time_overlaps (hm 18 30) (hm 19 30) (booking_start_time b) (booking_end_time b)"
    by blast
  from slot_taken[OF fk this] fk b show ?thesis by simp
qed

subsection \<open>Cancellation\<close>






subsection \<open>Notifying the head of the queue\<close>

lemma sort_key_head:
  assumes "sort_key f xs = y # ys"
  shows "y \<in> set xs \<and> (\<forall>x \<in> set xs. f y \<le> f x)"
proof -
  have s: "set (sort_key f xs) = set xs" by simp
  have "sorted (map f (sort_key f xs))" by (rule sorted_sort_key)
  with assms have "\<forall>z \<in> set ys. f y \<le> f z" by simp
  moreover from s assms have "set xs = insert y (set ys)" by simp
  ultimately show ?thesis by auto
qed

lemma sort_key_empty: "sort_key f xs = [] \<longleftrightarrow> xs = []"
  by (metis length_sort length_0_conv)

lemma map_replace_by_id:
  assumes "distinct (map f xs)" and "e \<in> set xs"
  shows "map (\<lambda>w. if f w = f e then e' else w) xs = map (\<lambda>w. if w = e then e' else w) xs"
  using assms by (auto simp: distinct_map inj_on_def)

lemma map_replace_absent:
  "e \<notin> set xs \<Longrightarrow> map (\<lambda>w. if w = e then e' else w) xs = xs"
  by (intro map_idI) auto

lemma filter_replace:
  assumes "distinct xs" and "\<not> P e'" and "P e"
  shows "filter P (map (\<lambda>w. if w = e then e' else w) xs) = remove1 e (filter P xs)"
  using assms
proof (induction xs)
  case Nil
  then show ?case by simp
next
  case (Cons x xs)
  show ?case
  proof (cases "x = e")
    case True
    with Cons.prems have "e \<notin> set xs" by simp
    with True Cons.prems show ?thesis
      by (simp add: map_replace_absent)
  next
    case False
    with Cons show ?thesis by simp
  qed
qed

text \<open>
  Claim C7. When no \<^verbatim>\<open>WAITING\<close> entry exists for the slot, \<open>notify_next_in_queue\<close> returns
  \<open>None\<close> and the database as it was. When one exists (primary keys being distinct), it
  picks a \<^verbatim>\<open>WAITING\<close> entry of the slot whose \<open>created_at\<close> is least, and, the notification
  having gone out, returns that entry with status \<^verbatim>\<open>NOTIFIED\<close> and \<open>notified_at\<close> set to
  the current time, in a database where exactly that row is replaced: the \<^verbatim>\<open>WAITING\<close>
  entries of the slot are the former ones without the chosen entry. When the notification
  cannot be sent the call raises.
\<close>

theorem notify_next_oldest_waiting:
  "(\<not> list_ex (waiting_for (court_id court) date st en) (waitlists db) \<longrightarrow>
      notify_next_in_queue deliver now court date st en db = Inr (None, db))
   \<and> (list_ex (waiting_for (court_id court) date st en) (waitlists db) \<longrightarrow>
      distinct (map waitlist_id (waitlists db)) \<longrightarrow>
      (\<exists>e \<in> set (waitlists db).
          waiting_for (court_id court) date st en e
          \<and> (\<forall>w \<in> set (waitlists db).
                waiting_for (court_id court) date st en w \<longrightarrow> created_at e \<le> created_at w)
          \<and> notify_next_in_queue deliver now court date st en db
              = (if deliver (e\<lparr>waitlist_status := NOTIFIED, notified_at := Some now\<rparr>) court
                 then Inr (Some (e\<lparr>waitlist_status := NOTIFIED, notified_at := Some now\<rparr>),
                           db\<lparr>waitlists :=
                                map (\<lambda>w. if w = e
                                          then e\<lparr>waitlist_status := NOTIFIED, notified_at := Some now\<rparr>
                                          else w) (waitlists db)\<rparr>)
                 else Inl NotificationError)
          \<and> filter (waiting_for (court_id court) date st en)
                (map (\<lambda>w. if w = e
                          then e\<lparr>waitlist_status := NOTIFIED, notified_at := Some now\<rparr>
                          else w) (waitlists db))
              = remove1 e (filter (waiting_for (court_id court) date st en) (waitlists db))))"
proof (intro conjI impI)
  let ?P = "\<lambda>w. slot_entry (court_id court) date st en w \<and> waitlist_status w = WAITING"
  have P: "?P = waiting_for (court_id court) date st en"
    by (auto simp: waiting_for_def)
  {
    assume "\<not> list_ex (waiting_for (court_id court) date st en) (waitlists db)"
    then have "filter ?P (waitlists db) = []"
      by (auto simp: P list_ex_iff filter_empty_conv)
    then show "notify_next_in_queue deliver now court date st en db = Inr (None, db)"
      by (simp add: notify_next_in_queue_def)
  next
    assume ex: "list_ex (waiting_for (court_id court) date st en) (waitlists db)"
      and ids: "distinct (map waitlist_id (waitlists db))"
    then have "sort_key created_at (filter ?P (waitlists db)) \<noteq> []"
      by (auto simp: P sort_key_empty list_ex_iff filter_empty_conv)
    then obtain e es where s: "sort_key created_at (filter ?P (waitlists db)) = e # es"
      by (cases "sort_key created_at (filter ?P (waitlists db))") auto
    from sort_key_head[OF s] have e: "e \<in> set (waitlists db)" "?P e"
      and least: "\<forall>w \<in> set (waitlists db). ?P w \<longrightarrow> created_at e \<le> created_at w"
      by auto
    let ?e' = "e\<lparr>waitlist_status := NOTIFIED, notified_at := Some now\<rparr>"
    have m: "map (\<lambda>w. if waitlist_id w = waitlist_id ?e' then ?e' else w) (waitlists db)
           = map (\<lambda>w. if w = e then ?e' else w) (waitlists db)"
      using map_replace_by_id[OF ids e(1), of ?e'] by simp
    have run: "notify_next_in_queue deliver now court date st en db
              = (if deliver ?e' court
                 then Inr (Some ?e', db\<lparr>waitlists := map (\<lambda>w. if w = e then ?e' else w) (waitlists db)\<rparr>)
                 else Inl NotificationError)"
      using s m by (simp add: notify_next_in_queue_def Let_def)
    from ids have d: "distinct (waitlists db)"
      by (simp add: distinct_map)
    have "\<not> waiting_for (court_id court) date st en ?e'"
      by (simp add: waiting_for_def)
    with d e have rest: "filter (waiting_for (court_id court) date st en)
                (map (\<lambda>w. if w = e then ?e' else w) (waitlists db))
              = remove1 e (filter (waiting_for (court_id court) date st en) (waitlists db))"
      by (intro filter_replace) (auto simp: P[symmetric])
    from e least run rest
    show "\<exists>e \<in> set (waitlists db).
          waiting_for (court_id court) date st en e
          \<and> (\<forall>w \<in> set (waitlists db).
                waiting_for (court_id court) date st en w \<longrightarrow> created_at e \<le> created_at w)
          \<and> notify_next_in_queue deliver now court date st en db
              = (if deliver (e\<lparr>waitlist_status := NOTIFIED, notified_at := Some now\<rparr>) court
                 then Inr (Some (e\<lparr>waitlist_status := NOTIFIED, notified_at := Some now\<rparr>),
                           db\<lparr>waitlists :=
                                map (\<lambda>w. if w = e
                                          then e\<lparr>waitlist_status := NOTIFIED, notified_at := Some now\<rparr>
                                          else w) (waitlists db)\<rparr>)
                 else Inl NotificationError)
          \<and> filter (waiting_for (court_id court) date st en)
                (map (\<lambda>w. if w = e
                          then e\<lparr>waitlist_status := NOTIFIED, notified_at := Some now\<rparr>
                          else w) (waitlists db))
              = remove1 e (filter (waiting_for (court_id court) date st en) (waitlists db))"
      unfolding P[symmetric] by (intro bexI[of _ e]) auto
  }
qed


theorem notify_next_oldest_waiting_witness:
  "\<not> list_ex (waiting_for (court_id court1) saturday (hm 18 0) (hm 19 0)) (waitlists db_booked)
   \<and> notify_next_in_queue delivered 5000 court1 saturday (hm 18 0) (hm 19 0) db_booked
       = Inr (None, db_booked)
   \<and> list_ex (waiting_for (court_id court1) saturday (hm 18 0) (hm 19 0)) (waitlists db_waiting)
   \<and> distinct (map waitlist_id (waitlists db_waiting))
   \<and> notify_next_in_queue delivered 5000 court1 saturday (hm 18 0) (hm 19 0) db_waiting
       = Inr (Some (entry_early\<lparr>waitlist_status := NOTIFIED, notified_at := Some 5000\<rparr>),
              db_waiting\<lparr>waitlists :=
                [entry_late, entry_other_slot,
                 entry_early\<lparr>waitlist_status := NOTIFIED, notified_at := Some 5000\<rparr>]\<rparr>)
   \<and> filter (waiting_for (court_id court1) saturday (hm 18 0) (hm 19 0))
         [entry_late, entry_other_slot,
          entry_early\<lparr>waitlist_status := NOTIFIED, notified_at := Some 5000\<rparr>]
       = [entry_late]"
proof -
  let ?W = "waiting_for (court_id court1) saturday (hm 18 0) (hm 19 0)"
  have w: "?W entry_late" "?W entry_early" "\<not> ?W entry_other_slot"
    by (simp_all add: waiting_for_def slot_entry_def catalog_defs queue_defs hm_def)
  have ws: "waitlists db_waiting = [entry_late, entry_other_slot, entry_early]"
    "waitlists db_booked = []"
    by (simp_all add: catalog_defs queue_defs)
  have ne: "entry_late \<noteq> entry_early" "entry_other_slot \<noteq> entry_early"
    by (simp_all add: catalog_defs queue_defs)
  have h1: "\<not> list_ex ?W (waitlists db_booked)"
    by (simp add: ws)
  have h2: "list_ex ?W (waitlists db_waiting)"
    by (simp add: ws w)
  have h3: "distinct (map waitlist_id (waitlists db_waiting))"
    by (simp add: catalog_defs queue_defs)
  from notify_next_oldest_waiting[of court1 saturday "hm 18 0" "hm 19 0" db_booked delivered 5000] h1
  have r1: "notify_next_in_queue delivered 5000 court1 saturday (hm 18 0) (hm 19 0) db_booked
       = Inr (None, db_booked)"
    by blast
  from notify_next_oldest_waiting[of court1 saturday "hm 18 0" "hm 19 0" db_waiting delivered 5000]
    h2 h3
  obtain e where e: "e \<in> set (waitlists db_waiting)" "?W e"
    "\<forall>w \<in> set (waitlists db_waiting). ?W w \<longrightarrow> created_at e \<le> created_at w"
    and run: "notify_next_in_queue delivered 5000 court1 saturday (hm 18 0) (hm 19 0) db_waiting
              = (if delivered (e\<lparr>waitlist_status := NOTIFIED, notified_at := Some 5000\<rparr>) court1
                 then Inr (Some (e\<lparr>waitlist_status := NOTIFIED, notified_at := Some 5000\<rparr>),
                           db_waiting\<lparr>waitlists :=
                                map (\<lambda>w. if w = e
                                          then e\<lparr>waitlist_status := NOTIFIED, notified_at := Some 5000\<rparr>
                                          else w) (waitlists db_waiting)\<rparr>)
                 else Inl NotificationError)"
    and rest: "filter ?W
                (map (\<lambda>w. if w = e
                          then e\<lparr>waitlist_status := NOTIFIED, notified_at := Some 5000\<rparr>
                          else w) (waitlists db_waiting))
              = remove1 e (filter ?W (waitlists db_waiting))"
    by blast
  from e(3) w have "created_at e \<le> created_at entry_early"
    by (simp add: ws)
  moreover have "created_at entry_late > created_at entry_early"
    by (simp add: catalog_defs queue_defs)
  ultimately have "e \<noteq> entry_late" by auto
  with e(1,2) w have "e = entry_early"
    by (auto simp: ws)
  with run rest r1 h1 h2 h3 ne w show ?thesis
    by (simp add: ws delivered_def)
qed


subsection \<open>Joining the waitlist\<close>

lemma add_to_waitlist_cases:
  "add_to_waitlist now user court date st en db =
     (if \<exists>w \<in> set (waitlists db). waitlist_user w = user \<and> waiting_for (court_id court) date st en w
      then (None, db)
      else (Some (new_entry now user court date st en db),
            db\<lparr>waitlists := waitlists db @ [new_entry now user court date st en db]\<rparr>))"
proof -
  have e: "(find (\<lambda>w. waitlist_user w = user \<and> slot_entry (court_id court) date st en w
                     \<and> waitlist_status w = WAITING)
              (sort_key created_at (waitlists db)) \<noteq> None)
         = (\<exists>w \<in> set (waitlists db). waitlist_user w = user
               \<and> waiting_for (court_id court) date st en w)"
    by (auto simp: find_None_iff waiting_for_def)
  show ?thesis
    unfolding add_to_waitlist_def Let_def new_entry_def by (simp only: e)
qed

lemma waiting_keys_append:
  "waitlist_status e = WAITING \<Longrightarrow>
   waiting_keys (db\<lparr>waitlists := waitlists db @ [e]\<rparr>)
     = waiting_keys db @ [(waitlist_user e, waitlist_court e, waitlist_date e,
                            waitlist_start_time e, waitlist_end_time e)]"
  by (simp add: waiting_keys_def)

lemma key_waiting:
  "((u, c, d, s, e) \<in> set (waiting_keys db))
     = (\<exists>w \<in> set (waitlists db). waitlist_user w = u \<and> waiting_for c d s e w)"
  by (auto simp: waiting_keys_def waiting_for_def slot_entry_def)

lemma add_to_waitlist_invariant:
  assumes "at_most_one_waiting db"
  shows "at_most_one_waiting (snd (add_to_waitlist now user court date st en db))"
  using assms
  by (auto simp: add_to_waitlist_cases at_most_one_waiting_def waiting_keys_append key_waiting
        new_entry_def)

lemma distinct_keys_filter:
  assumes "distinct (map f (filter P xs))"
  shows "distinct (map f (filter (\<lambda>x. P x \<and> Q x) xs))"
    and "distinct (map f (filter (\<lambda>x. Q x \<and> P x) xs))"
  using distinct_map_filter[OF assms, of Q] by (simp_all add: conj_commute)

lemma filter_waiting_replace:
  assumes "waitlist_status e' \<noteq> WAITING"
  shows "filter (\<lambda>w. waitlist_status w = WAITING) (map (\<lambda>w. if waitlist_id w = i then e' else w) ws)
       = filter (\<lambda>w. waitlist_status w = WAITING \<and> waitlist_id w \<noteq> i) ws"
  using assms by (induction ws) auto

lemma notify_next_in_queue_invariant:
  assumes "at_most_one_waiting db"
    and "notify_next_in_queue deliver now court date st en db = Inr (r, db')"
  shows "at_most_one_waiting db'"
proof (cases "sort_key created_at
             (filter (\<lambda>w. slot_entry (court_id court) date st en w
                         \<and> waitlist_status w = WAITING) (waitlists db))")
  case Nil
  with assms show ?thesis
    by (simp add: notify_next_in_queue_def)
next
  case (Cons e es)
  let ?e' = "e\<lparr>waitlist_status := NOTIFIED, notified_at := Some now\<rparr>"
  from Cons assms(2) have "waitlists db'
      = map (\<lambda>w. if waitlist_id w = waitlist_id ?e' then ?e' else w) (waitlists db)"
    by (auto simp: notify_next_in_queue_def Let_def split: if_splits)
  then have "waiting_keys db' = map (\<lambda>w. (waitlist_user w, waitlist_court w, waitlist_date w,
                   waitlist_start_time w, waitlist_end_time w))
       (filter (\<lambda>w. waitlist_status w = WAITING \<and> waitlist_id w \<noteq> waitlist_id ?e') (waitlists db))"
    unfolding waiting_keys_def by (simp only: filter_waiting_replace[of ?e', simplified])
  with assms(1) show ?thesis
    unfolding at_most_one_waiting_def waiting_keys_def by (simp only: distinct_keys_filter)
qed

lemma filter_waiting_expire:
  assumes "\<And>w. stale w \<Longrightarrow> waitlist_status w \<noteq> WAITING"
  shows "filter (\<lambda>w. waitlist_status w = WAITING)
           (map (\<lambda>w. if stale w then w\<lparr>waitlist_status := EXPIRED\<rparr> else w) ws)
         = filter (\<lambda>w. waitlist_status w = WAITING) ws"
  using assms by (induction ws) auto

lemma expire_old_notifications_invariant:
  assumes "at_most_one_waiting db"
  shows "at_most_one_waiting (snd (expire_old_notifications now db))"
proof -
  let ?stale = "\<lambda>w. waitlist_status w = NOTIFIED
                     \<and> (case notified_at w of None \<Rightarrow> False | Some t \<Rightarrow> t < now - 86400)"
  have "filter (\<lambda>w. waitlist_status w = WAITING)
           (map (\<lambda>w. if ?stale w then w\<lparr>waitlist_status := EXPIRED\<rparr> else w) (waitlists db))
         = filter (\<lambda>w. waitlist_status w = WAITING) (waitlists db)"
    by (rule filter_waiting_expire) simp
  then have "waiting_keys (snd (expire_old_notifications now db)) = waiting_keys db"
    by (simp add: expire_old_notifications_def waiting_keys_def Let_def)
  with assms show ?thesis
    by (simp add: at_most_one_waiting_def)
qed

lemma remove_from_waitlist_invariant:
  assumes "at_most_one_waiting db"
  shows "at_most_one_waiting (snd (remove_from_waitlist wid user db))"
proof (cases "find (\<lambda>w. waitlist_id w = wid \<and> waitlist_user w = user) (waitlists db)")
  case None
  with assms show ?thesis
    by (simp add: remove_from_waitlist_def)
next
  case (Some e)
  then have "waiting_keys (snd (remove_from_waitlist wid user db))
      = map (\<lambda>w. (waitlist_user w, waitlist_court w, waitlist_date w,
                   waitlist_start_time w, waitlist_end_time w))
       (filter (\<lambda>w. waitlist_id w \<noteq> waitlist_id e \<and> waitlist_status w = WAITING) (waitlists db))"
    by (simp add: remove_from_waitlist_def waiting_keys_def)
  with assms show ?thesis
    unfolding at_most_one_waiting_def waiting_keys_def by (simp only: distinct_keys_filter)
qed

lemma join_waitlist_invariant:
  assumes "at_most_one_waiting db"
  shows "at_most_one_waiting (snd (join_waitlist now user cid date st en db))"
proof (cases "get_court db cid")
  case (Inl e)
  with assms show ?thesis by (simp add: join_waitlist_def)
next
  case (Inr court)
  have "snd (join_waitlist now user cid date st en db)
      = snd (add_to_waitlist now user court date st en db)"
    using Inr by (simp add: join_waitlist_def split: prod.splits option.splits)
  with assms show ?thesis
    by (simp add: add_to_waitlist_invariant)
qed

lemma waiting_keys_bookings: "waiting_keys (db\<lparr>bookings := bs\<rparr>) = waiting_keys db"
  by (simp add: waiting_keys_def)

lemma cancel_booking_invariant:
  assumes "at_most_one_waiting db"
  shows "at_most_one_waiting (snd (cancel_booking deliver now user bid db))"
proof -
  {
    fix b court r db'
    assume "notify_next_in_queue deliver now court (booking_date b) (booking_start_time b)
              (booking_end_time b)
              (db\<lparr>bookings := map (\<lambda>x. if booking_id x = booking_id b
                      then b\<lparr>booking_status := CANCELLED, booking_updated_at := now\<rparr> else x)
                    (bookings db)\<rparr>) = Inr (r, db')"
    moreover from assms have "at_most_one_waiting (db\<lparr>bookings := map (\<lambda>x. if booking_id x = booking_id b
                      then b\<lparr>booking_status := CANCELLED, booking_updated_at := now\<rparr> else x)
                    (bookings db)\<rparr>)"
      by (simp add: at_most_one_waiting_def waiting_keys_bookings)
    ultimately have "at_most_one_waiting db'"
      using notify_next_in_queue_invariant by blast
  }
  with assms show ?thesis
    by (auto simp: cancel_booking_def Let_def split: sum.splits error.splits)
qed

lemma confirm_booking_waitlists:
  "waitlists (snd (confirm_booking now user cid date st en lines coach db)) = waitlists db"
  by (auto simp: confirm_booking_def Let_def split: sum.splits option.splits if_splits)

lemma confirm_booking_invariant:
  assumes "at_most_one_waiting db"
  shows "at_most_one_waiting (snd (confirm_booking now user cid date st en lines coach db))"
  using assms by (simp add: at_most_one_waiting_def waiting_keys_def confirm_booking_waitlists)


lemma position_of_Some:
  "\<exists>x \<in> set xs. waitlist_user x = user \<Longrightarrow> \<exists>p. position_of user i xs = Some p"
  by (induction xs arbitrary: i) auto

lemma join_waitlist_new:
  assumes "get_court db cid = Inr court"
    and "\<not> (\<exists>w \<in> set (waitlists db).
              waitlist_user w = user \<and> waiting_for (court_id court) date st en w)"
  shows "\<exists>position. join_waitlist now user cid date st en db
           = (WaitlistJoined (Some position),
              db\<lparr>waitlists := waitlists db @ [new_entry now user court date st en db]\<rparr>)"
proof -
  let ?e = "new_entry now user court date st en db"
  let ?db' = "db\<lparr>waitlists := waitlists db @ [?e]\<rparr>"
  have "?e \<in> set (sort_key created_at
          (filter (\<lambda>w. slot_entry (court_id court) date st en w \<and> waitlist_status w = WAITING)
             (waitlists ?db')))"
    by (simp add: new_entry_def slot_entry_def)
  moreover have "waitlist_user ?e = user"
    by (simp add: new_entry_def)
  ultimately obtain p where "get_waitlist_position user court date st en ?db' = Some p"
    unfolding get_waitlist_position_def using position_of_Some by blast
  with assms show ?thesis
    by (simp add: join_waitlist_def add_to_waitlist_cases)
qed

text \<open>
  Claim C10. \<open>add_to_waitlist\<close> returns \<open>None\<close> and changes nothing when the requester has a
  \<^verbatim>\<open>WAITING\<close> entry for exactly this court, date, start and end; otherwise it appends a new
  \<^verbatim>\<open>WAITING\<close> entry and returns it. Hence no operation of the service or view (joining,
  notifying, expiring, removing, cancelling or confirming a booking) ever gives a requester
  two \<^verbatim>\<open>WAITING\<close> entries for one slot. The test reads \<^verbatim>\<open>WAITING\<close> entries only, so an
  entry that is \<^verbatim>\<open>NOTIFIED\<close> or \<^verbatim>\<open>EXPIRED\<close> does not block a new one, and it reads no
  booking: the view \<open>join_waitlist\<close> succeeds for any existing court, also when the slot is
  free.
\<close>

theorem waitlist_join_and_invariant:
  "((\<exists>w \<in> set (waitlists db). waitlist_user w = user
        \<and> waiting_for (court_id court) date st en w) \<longrightarrow>
       add_to_waitlist now user court date st en db = (None, db))
   \<and> (\<not> (\<exists>w \<in> set (waitlists db). waitlist_user w = user
            \<and> waiting_for (court_id court) date st en w) \<longrightarrow>
       add_to_waitlist now user court date st en db
         = (Some (new_entry now user court date st en db),
            db\<lparr>waitlists := waitlists db @ [new_entry now user court date st en db]\<rparr>)
       \<and> waitlist_status (new_entry now user court date st en db) = WAITING)
   \<and> (at_most_one_waiting db \<longrightarrow>
        at_most_one_waiting (snd (add_to_waitlist now user court date st en db))
        \<and> at_most_one_waiting (snd (join_waitlist now user cid date st en db))
        \<and> (\<forall>r db'. notify_next_in_queue deliver now court date st en db = Inr (r, db')
              \<longrightarrow> at_most_one_waiting db')
        \<and> at_most_one_waiting (snd (expire_old_notifications now db))
        \<and> at_most_one_waiting (snd (remove_from_waitlist wid user db))
        \<and> at_most_one_waiting (snd (cancel_booking deliver now user bid db))
        \<and> at_most_one_waiting (snd (confirm_booking now user cid date st en equipment_list
                                        coach db)))
   \<and> (get_court db cid = Inr court \<longrightarrow>
       \<not> (\<exists>w \<in> set (waitlists db). waitlist_user w = user
            \<and> waiting_for (court_id court) date st en w) \<longrightarrow>
       (\<exists>position. join_waitlist now user cid date st en db
           = (WaitlistJoined (Some position),
              db\<lparr>waitlists := waitlists db @ [new_entry now user court date st en db]\<rparr>)))"
proof (intro conjI impI allI)
  assume "\<exists>w \<in> set (waitlists db). waitlist_user w = user
        \<and> waiting_for (court_id court) date st en w"
  then show "add_to_waitlist now user court date st en db = (None, db)"
    by (simp add: add_to_waitlist_cases)
next
  assume "\<not> (\<exists>w \<in> set (waitlists db). waitlist_user w = user
            \<and> waiting_for (court_id court) date st en w)"
  then show "add_to_waitlist now user court date st en db
         = (Some (new_entry now user court date st en db),
            db\<lparr>waitlists := waitlists db @ [new_entry now user court date st en db]\<rparr>)"
    by (simp add: add_to_waitlist_cases)
next
  show "waitlist_status (new_entry now user court date st en db) = WAITING"
    by (simp add: new_entry_def)
next
  assume inv: "at_most_one_waiting db"
  then show "at_most_one_waiting (snd (add_to_waitlist now user court date st en db))"
    by (rule add_to_waitlist_invariant)
  from inv show "at_most_one_waiting (snd (join_waitlist now user cid date st en db))"
    by (rule join_waitlist_invariant)
  from inv show "at_most_one_waiting (snd (expire_old_notifications now db))"
    by (rule expire_old_notifications_invariant)
  from inv show "at_most_one_waiting (snd (remove_from_waitlist wid user db))"
    by (rule remove_from_waitlist_invariant)
  from inv show "at_most_one_waiting (snd (cancel_booking deliver now user bid db))"
    by (rule cancel_booking_invariant)
  from inv show "at_most_one_waiting (snd (confirm_booking now user cid date st en equipment_list
                                        coach db))"
    by (rule confirm_booking_invariant)
  fix r db'
  assume "notify_next_in_queue deliver now court date st en db = Inr (r, db')"
  with inv show "at_most_one_waiting db'"
    by (rule notify_next_in_queue_invariant)
next
  assume "get_court db cid = Inr court"
    "\<not> (\<exists>w \<in> set (waitlists db). waitlist_user w = user
            \<and> waiting_for (court_id court) date st en w)"
  then show "\<exists>position. join_waitlist now user cid date st en db
           = (WaitlistJoined (Some position),
              db\<lparr>waitlists := waitlists db @ [new_entry now user court date st en db]\<rparr>)"
    by (rule join_waitlist_new)
qed

theorem waitlist_join_and_invariant_witness:
  "entry_early \<in> set (waitlists db_waiting) \<and> waitlist_user entry_early = 8
   \<and> waiting_for (court_id court1) saturday (hm 18 0) (hm 19 0) entry_early
   \<and> add_to_waitlist 5000 8 court1 saturday (hm 18 0) (hm 19 0) db_waiting = (None, db_waiting)
   \<and> bookings db_notified = []
   \<and> waitlists db_notified = [entry_notified] \<and> waitlist_user entry_notified = 8
   \<and> slot_entry (court_id court1) saturday (hm 18 0) (hm 19 0) entry_notified
   \<and> waitlist_status entry_notified = NOTIFIED
   \<and> get_court db_notified 1 = Inr court1
   \<and> add_to_waitlist 5000 8 court1 saturday (hm 18 0) (hm 19 0) db_notified
       = (Some (new_entry 5000 8 court1 saturday (hm 18 0) (hm 19 0) db_notified),
          db_notified\<lparr>waitlists :=
            [entry_notified, new_entry 5000 8 court1 saturday (hm 18 0) (hm 19 0) db_notified]\<rparr>)
   \<and> fst (join_waitlist 5000 8 1 saturday (hm 18 0) (hm 19 0) db_notified)
       = WaitlistJoined (Some 1)
   \<and> at_most_one_waiting db_waiting
   \<and> at_most_one_waiting (snd (join_waitlist 5000 9 1 saturday (hm 19 0) (hm 20 0) db_waiting))
   \<and> at_most_one_waiting (snd (cancel_booking delivered 5000 7 1 db_waiting))"
proof -
  let ?ex = "\<lambda>db. \<exists>w \<in> set (waitlists db). waitlist_user w = 8
        \<and> waiting_for (court_id court1) saturday (hm 18 0) (hm 19 0) w"
  have w: "entry_early \<in> set (waitlists db_waiting)" "waitlist_user entry_early = 8"
    "waiting_for (court_id court1) saturday (hm 18 0) (hm 19 0) entry_early"
    by (simp_all add: waiting_for_def slot_entry_def catalog_defs queue_defs entry_notified_def db_notified_def)
  then have h1: "?ex db_waiting" by blast
  have n: "bookings db_notified = []" "waitlists db_notified = [entry_notified]"
    "waitlist_user entry_notified = 8"
    "slot_entry (court_id court1) saturday (hm 18 0) (hm 19 0) entry_notified"
    "waitlist_status entry_notified = NOTIFIED"
    by (simp_all add: slot_entry_def catalog_defs queue_defs entry_notified_def db_notified_def)
  then have h2: "\<not> ?ex db_notified"
    by (simp add: waiting_for_def)
  have c: "get_court db_notified 1 = Inr court1"
    by (simp add: get_court_def catalog_defs queue_defs entry_notified_def db_notified_def)
  have inv: "at_most_one_waiting db_waiting"
    by (simp add: at_most_one_waiting_def waiting_keys_def catalog_defs queue_defs entry_notified_def db_notified_def hm_def)
  note T1 = waitlist_join_and_invariant[of db_waiting 8 court1 saturday "hm 18 0" "hm 19 0" 5000]
  note T2 = waitlist_join_and_invariant[of db_notified 8 court1 saturday "hm 18 0" "hm 19 0" 5000 1]
  note T3 = waitlist_join_and_invariant[of db_waiting 9 court1 saturday "hm 19 0" "hm 20 0" 5000 1]
  note T4 = waitlist_join_and_invariant[of db_waiting 7 court1 saturday "hm 19 0" "hm 20 0" 5000 1
      delivered _ 1]
  from T1 h1 have r1:
    "add_to_waitlist 5000 8 court1 saturday (hm 18 0) (hm 19 0) db_waiting = (None, db_waiting)"
    by blast
  from T2 h2 have r2: "add_to_waitlist 5000 8 court1 saturday (hm 18 0) (hm 19 0) db_notified
       = (Some (new_entry 5000 8 court1 saturday (hm 18 0) (hm 19 0) db_notified),
          db_notified\<lparr>waitlists := waitlists db_notified
             @ [new_entry 5000 8 court1 saturday (hm 18 0) (hm 19 0) db_notified]\<rparr>)"
    by blast
  from T2 h2 c obtain position where
    j: "join_waitlist 5000 8 1 saturday (hm 18 0) (hm 19 0) db_notified
           = (WaitlistJoined (Some position),
              db_notified\<lparr>waitlists := waitlists db_notified
                 @ [new_entry 5000 8 court1 saturday (hm 18 0) (hm 19 0) db_notified]\<rparr>)"
    by blast
  have "fst (join_waitlist 5000 8 1 saturday (hm 18 0) (hm 19 0) db_notified)
       = WaitlistJoined (Some 1)"
    by (simp add: join_waitlist_def add_to_waitlist_def get_waitlist_position_def get_court_def Let_def
          slot_entry_def next_id_def catalog_defs queue_defs entry_notified_def db_notified_def hm_def)
  moreover from T3 inv
  have "at_most_one_waiting (snd (join_waitlist 5000 9 1 saturday (hm 19 0) (hm 20 0) db_waiting))"
    by blast
  moreover from T4 inv
  have "at_most_one_waiting (snd (cancel_booking delivered 5000 7 1 db_waiting))"
    by blast
  ultimately show ?thesis
    using w n c inv r1 r2 by simp
qed


subsection \<open>Coaches that are not active\<close>

lemma check_coach_available_iff:
  "check_coach_available db cid date st en None
     = (list_ex (\<lambda>a. availability_coach a = cid \<and> day_of_week a = int (weekday date)
                      \<and> availability_start_time a \<le> st \<and> availability_end_time a \<ge> en)
          (coach_availabilities db)
        \<and> \<not> list_ex (\<lambda>b. booking_coach b = Some cid \<and> confirmed_in_window date st en b)
              (bookings db))"
  by (auto simp: check_coach_available_def Let_def excluded_def truthy_def list_ex_iff
        filter_empty_conv)

lemma listed_coach_is_active:
  assumes "distinct (map coach_id (coaches db))"
    and "c \<in> set (get_available_coaches db date st en)"
  shows "coach_is_active c"
proof -
  from assms(2) have c: "c \<in> set (coaches db)"
    and "coach_id c \<in> set (map availability_coach
              (filter (\<lambda>a. day_of_week a = int (weekday date)
                          \<and> availability_start_time a \<le> st
                          \<and> availability_end_time a \<ge> en
                          \<and> list_ex (\<lambda>c. coach_id c = availability_coach a \<and> coach_is_active c)
                                (coaches db))
                 (coach_availabilities db)))"
    by (simp_all add: get_available_coaches_def Let_def)
  then obtain c' where c': "c' \<in> set (coaches db)" "coach_id c' = coach_id c" "coach_is_active c'"
    by (auto simp: list_ex_iff)
  from assms(1) c c'(1,2) have "c' = c"
    by (auto simp: distinct_map inj_on_def)
  with c'(3) show ?thesis by simp
qed

text \<open>
  Claim C9. \<open>check_coach_available\<close> holds whenever the coach has a weekly window on the
  weekday of the date that contains the requested window and no overlapping \<^verbatim>\<open>CONFIRMED\<close>
  booking; it does not read \<open>is_active\<close>, and with a free court the combined check then
  passes. \<open>get_available_coaches\<close> lists active coaches only (primary keys being distinct).
  In the example database the one coach is inactive: the combined check passes,
  \<open>confirm_booking\<close> confirms a booking with that coach attached, and the listing of
  available coaches for the same window is empty.
\<close>

theorem inactive_coach_passes_check:
  "(list_ex (\<lambda>a. availability_coach a = cid \<and> day_of_week a = int (weekday date)
                  \<and> availability_start_time a \<le> st \<and> availability_end_time a \<ge> en)
       (coach_availabilities db) \<longrightarrow>
    \<not> list_ex (\<lambda>b. booking_coach b = Some cid \<and> confirmed_in_window date st en b)
        (bookings db) \<longrightarrow>
      check_coach_available db cid date st en None
      \<and> (check_court_available db court date st en None \<longrightarrow>
           check_all_resources_available db date st en court [] (Some cid)
             = Inr \<lparr>available = True, errors = []\<rparr>))
   \<and> (distinct (map coach_id (coaches db)) \<longrightarrow>
        (\<forall>c \<in> set (get_available_coaches db date st en). coach_is_active c))
   \<and> coaches db0 = [coach1] \<and> \<not> coach_is_active coach1
   \<and> check_all_resources_available db0 saturday (hm 18 0) (hm 19 0) 1 [] (Some (coach_id coach1))
        = Inr \<lparr>available = True, errors = []\<rparr>
   \<and> fst (confirm_booking 5000 7 1 saturday (hm 18 0) (hm 19 0) [] (Some (coach_id coach1)) db0)
        = BookingConfirmed 1
   \<and> map booking_coach
        (bookings (snd (confirm_booking 5000 7 1 saturday (hm 18 0) (hm 19 0) []
                          (Some (coach_id coach1)) db0)))
        = [Some (coach_id coach1)]
   \<and> get_available_coaches db0 saturday (hm 18 0) (hm 19 0) = []"
proof (intro conjI impI ballI)
  assume a: "list_ex (\<lambda>a. availability_coach a = cid \<and> day_of_week a = int (weekday date)
                  \<and> availability_start_time a \<le> st \<and> availability_end_time a \<ge> en)
       (coach_availabilities db)"
    "\<not> list_ex (\<lambda>b. booking_coach b = Some cid \<and> confirmed_in_window date st en b)
        (bookings db)"
  then show ok: "check_coach_available db cid date st en None"
    by (simp add: check_coach_available_iff)
  assume "check_court_available db court date st en None"
  with ok show "check_all_resources_available db date st en court [] (Some cid)
             = Inr \<lparr>available = True, errors = []\<rparr>"
    by (simp add: check_all_resources_available_def)
next
  fix c
  assume "distinct (map coach_id (coaches db))" "c \<in> set (get_available_coaches db date st en)"
  then show "coach_is_active c"
    by (rule listed_coach_is_active)
next
  show "coaches db0 = [coach1]" by (simp add: catalog_defs)
  show "\<not> coach_is_active coach1" by (simp add: catalog_defs)
  show "check_all_resources_available db0 saturday (hm 18 0) (hm 19 0) 1 [] (Some (coach_id coach1))
        = Inr \<lparr>available = True, errors = []\<rparr>"
    by (simp add: check_all_resources_available_def check_court_available_def
          check_coach_available_def truthy_def excluded_def weekday_def catalog_defs hm_def)
  show "fst (confirm_booking 5000 7 1 saturday (hm 18 0) (hm 19 0) [] (Some (coach_id coach1)) db0)
        = BookingConfirmed 1"
    by (simp add: confirm_booking_def check_all_resources_available_def check_court_available_def
          check_coach_available_def truthy_def excluded_def get_court_def get_coach_def
          confirmed_in_window_def next_id_def pricing_defs catalog_defs)
  show "map booking_coach
        (bookings (snd (confirm_booking 5000 7 1 saturday (hm 18 0) (hm 19 0) []
                          (Some (coach_id coach1)) db0)))
        = [Some (coach_id coach1)]"
    by (simp add: confirm_booking_def check_all_resources_available_def check_court_available_def
          check_coach_available_def truthy_def excluded_def get_court_def get_coach_def
          confirmed_in_window_def next_id_def pricing_defs catalog_defs)
  show "get_available_coaches db0 saturday (hm 18 0) (hm 19 0) = []"
    by (simp add: get_available_coaches_def catalog_defs weekday_def hm_def)
qed

theorem inactive_coach_passes_check_witness:
  "list_ex (\<lambda>a. availability_coach a = 1 \<and> day_of_week a = int (weekday saturday)
                  \<and> availability_start_time a \<le> hm 18 0 \<and> availability_end_time a \<ge> hm 19 0)
       (coach_availabilities db0)
   \<and> \<not> list_ex (\<lambda>b. booking_coach b = Some 1 \<and> confirmed_in_window saturday (hm 18 0) (hm 19 0) b)
        (bookings db0)
   \<and> check_court_available db0 1 saturday (hm 18 0) (hm 19 0) None
   \<and> distinct (map coach_id (coaches db0))
   \<and> coach1 \<in> set (coaches db0) \<and> coach_id coach1 = 1 \<and> \<not> coach_is_active coach1
   \<and> check_coach_available db0 1 saturday (hm 18 0) (hm 19 0) None
   \<and> check_all_resources_available db0 saturday (hm 18 0) (hm 19 0) 1 [] (Some 1)
        = Inr \<lparr>available = True, errors = []\<rparr>
   \<and> coach1 \<notin> set (get_available_coaches db0 saturday (hm 18 0) (hm 19 0))"
proof -
  have h: "list_ex (\<lambda>a. availability_coach a = 1 \<and> day_of_week a = int (weekday saturday)
                  \<and> availability_start_time a \<le> hm 18 0 \<and> availability_end_time a \<ge> hm 19 0)
       (coach_availabilities db0)"
    "\<not> list_ex (\<lambda>b. booking_coach b = Some 1 \<and> confirmed_in_window saturday (hm 18 0) (hm 19 0) b)
        (bookings db0)"
    "check_court_available db0 1 saturday (hm 18 0) (hm 19 0) None"
    "distinct (map coach_id (coaches db0))"
    by (simp_all add: check_court_available_def weekday_def catalog_defs hm_def)
  have c: "coach1 \<in> set (coaches db0)" "coach_id coach1 = 1" "\<not> coach_is_active coach1"
    by (simp_all add: catalog_defs)
  note T = inactive_coach_passes_check[of 1 saturday "hm 18 0" "hm 19 0" db0 1]
  from T h have "check_coach_available db0 1 saturday (hm 18 0) (hm 19 0) None"
    "check_all_resources_available db0 saturday (hm 18 0) (hm 19 0) 1 [] (Some 1)
        = Inr \<lparr>available = True, errors = []\<rparr>"
    "\<forall>c \<in> set (get_available_coaches db0 saturday (hm 18 0) (hm 19 0)). coach_is_active c"
    by blast+
  with h c show ?thesis by blast
qed


subsection \<open>Requested quantities\<close>

lemma check_equipment_available_decides:
  "get_equipment db eid = Inr eq \<Longrightarrow>
   check_equipment_available db eid qty date st en None
     = Inr (qty \<le> total_quantity eq - booked_quantity db eid date st en None)"
  by (simp add: check_equipment_available_def Let_def)

lemma check_equipment_list_passed:
  "check_equipment_list db date st en items = Inr [] \<Longrightarrow>
   \<forall>item \<in> set items.
      check_equipment_available db (fst item) (snd item) date st en None = Inr True"
  by (induction items) (auto split: sum.splits if_splits)

lemma check_all_passed:
  assumes "check_all_resources_available db date st en cid items coach = Inr chk"
    and "available chk"
  shows "check_equipment_list db date st en items = Inr []"
  using assms
  by (auto simp: check_all_resources_available_def Let_def split: sum.splits)

lemma create_booking_equipment_rows:
  "create_booking_equipment bid items rows = Inr rows' \<Longrightarrow>
   (\<forall>item \<in> set items. 0 \<le> snd item)
   \<and> rows' = rows @ map (\<lambda>item. \<lparr>be_booking = bid, be_equipment = fst item,
                                    quantity = snd item\<rparr>) items"
proof (induction items arbitrary: rows)
  case Nil
  then show ?case by simp
next
  case (Cons item items)
  from Cons.prems have nn: "\<not> snd item < 0"
    and rec: "create_booking_equipment bid items
                (rows @ [\<lparr>be_booking = bid, be_equipment = fst item, quantity = snd item\<rparr>])
              = Inr rows'"
    by (auto split: if_splits)
  from Cons.IH[OF rec] nn show ?case by auto
qed

lemma confirm_booking_confirmed:
  assumes "confirm_booking now user cid date st en items coach db = (BookingConfirmed bid, db')"
  shows "\<exists>chk rows. check_all_resources_available db date st en cid items coach = Inr chk
           \<and> available chk
           \<and> create_booking_equipment bid items (booking_equipments db) = Inr rows
           \<and> booking_equipments db' = rows"
  using assms
  by (auto simp: confirm_booking_def Let_def split: sum.splits if_splits)

lemma confirm_booking_unchanged:
  assumes "confirm_booking now user cid date st en items coach db = (r, db')"
  shows "(\<exists>bid. r = BookingConfirmed bid) \<or> db' = db"
  using assms
  by (auto simp: confirm_booking_def Let_def split: sum.splits if_splits)

lemma get_court_id: "get_court db cid = Inr c \<Longrightarrow> court_id c = cid"
  by (auto simp: get_court_def find_Some_iff split: option.splits)

lemma next_id_fresh: "next_id ids \<notin> set ids"
proof -
  have "i \<in> set ids \<Longrightarrow> i \<le> foldr max ids 0" for i
    by (induction ids) auto
  then show ?thesis
    by (fastforce simp: next_id_def)
qed

lemma slot_free:
  assumes "get_court db cid = Inr court"
  shows "(filter (\<lambda>b. booking_court b = court_id court
                     \<and> confirmed_in_window date st en b) (bookings db) = [])
         = check_court_available db cid date st en None"
  using get_court_id[OF assms]
  by (simp add: check_court_available_def excluded_def truthy_def)

lemma create_booking_equipment_negative:
  "\<exists>item \<in> set items. snd item < 0 \<Longrightarrow>
   create_booking_equipment bid items rows = Inl IntegrityError"
  by (induction items arbitrary: rows) auto

lemma create_booking_equipment_stored:
  assumes "\<forall>item \<in> set items. 0 \<le> snd item" and "distinct (map fst items)"
    and "\<forall>r \<in> set rows. be_booking r = bid \<longrightarrow> be_equipment r \<notin> fst ` set items"
  shows "create_booking_equipment bid items rows
           = Inr (rows @ map (\<lambda>item. \<lparr>be_booking = bid, be_equipment = fst item,
                                       quantity = snd item\<rparr>) items)"
  using assms
proof (induction items arbitrary: rows)
  case Nil
  then show ?case by simp
next
  case (Cons item items)
  let ?row = "\<lparr>be_booking = bid, be_equipment = fst item, quantity = snd item\<rparr>"
  from Cons.prems have ok: "\<not> snd item < 0"
    "\<not> list_ex (\<lambda>r. be_booking r = bid \<and> be_equipment r = fst item) rows"
    by (auto simp: list_ex_iff)
  from Cons.prems have "create_booking_equipment bid items (rows @ [?row])
           = Inr ((rows @ [?row]) @ map (\<lambda>item. \<lparr>be_booking = bid, be_equipment = fst item,
                                       quantity = snd item\<rparr>) items)"
    by (intro Cons.IH) auto
  with ok show ?case by simp
qed

lemma check_equipment_list_lines:
  assumes "\<forall>item \<in> set items. \<exists>eq. get_equipment db (fst item) = Inr eq"
  shows "\<exists>errs. check_equipment_list db date st en items = Inr errs
           \<and> (errs = [] \<longleftrightarrow>
                (\<forall>item \<in> set items.
                   check_equipment_available db (fst item) (snd item) date st en None = Inr True))"
  using assms
proof (induction items)
  case Nil
  then show ?case by simp
next
  case (Cons item items)
  then obtain eq where eq: "get_equipment db (fst item) = Inr eq" by auto
  from Cons obtain errs where
    rest: "check_equipment_list db date st en items = Inr errs"
      "errs = [] \<longleftrightarrow> (\<forall>item \<in> set items.
          check_equipment_available db (fst item) (snd item) date st en None = Inr True)"
    by auto
  from eq obtain ok where
    ok: "check_equipment_available db (fst item) (snd item) date st en None = Inr ok"
    by (simp add: check_equipment_available_def Let_def)
  show ?case
    using eq rest ok by (cases ok) auto
qed

lemma confirm_booking_after_pricing:
  assumes "get_court db cid = Inr court"
    and "check_court_available db cid date st en None"
    and "check_all_resources_available db date st en cid items coach = Inr chk"
    and "available chk"
    and "requested_coach db coach = Inr coach_instance"
    and "get_equipments db (map fst items) = Inr equipment_instances"
    and "calculate_price (pricing_rules db) court date st en equipment_instances coach_instance
           = Inr pricing"
  shows "confirm_booking now user cid date st en items coach db =
     (case create_booking_equipment (next_id (map booking_id (bookings db))) items
             (booking_equipments db) of
        Inl e \<Rightarrow> (ErrorResponse e, db)
      | Inr rows \<Rightarrow>
          (BookingConfirmed (next_id (map booking_id (bookings db))),
           db\<lparr>bookings := bookings db
                  @ [new_booking now user court date st en coach_instance pricing db],
              booking_equipments := rows\<rparr>))"
  using assms slot_free[OF assms(1), of date st en]
  by (simp add: confirm_booking_def requested_coach_def new_booking_def Let_def
           split: sum.splits)

text \<open>
  Claim C5, as the code has it. \<open>confirm_booking\<close> has no check on quantities, so a line
  with quantity 0 or less is handled like any other line. For a request whose court
  exists: when the slot is taken the answer is \<open>SlotFull\<close>; when the slot is free and the
  availability check reports errors the answer is that list of errors; a line whose
  equipment exists passes the availability check exactly when its quantity is at most
  \<open>total_quantity\<close> minus the booked quantity, whatever its sign. When the availability
  check, the lookups of coach and equipment and the pricing have all succeeded, a request
  with a negative quantity is answered with the generic error response for the
  \<open>IntegrityError\<close> of the line item's insert and the database is unchanged, while a request
  whose quantities are all at least 0 (0 included), on distinct equipment, is confirmed
  and every line is stored with the quantity requested. A confirmed booking has passed the
  availability check on every line and has no negative quantity.
\<close>

theorem quantities_reach_availability_check:
  "(get_court db cid = Inr court \<longrightarrow> \<not> check_court_available db cid date st en None \<longrightarrow>
      confirm_booking now user cid date st en equipment_list coach db = (SlotFull, db))
   \<and> (get_court db cid = Inr court \<longrightarrow> check_court_available db cid date st en None \<longrightarrow>
      check_all_resources_available db date st en cid equipment_list coach = Inr chk \<longrightarrow>
      \<not> available chk \<longrightarrow>
      confirm_booking now user cid date st en equipment_list coach db
        = (NotAvailable (errors chk), db))
   \<and> (get_court db cid = Inr court \<longrightarrow> check_court_available db cid date st en None \<longrightarrow>
      check_all_resources_available db date st en cid equipment_list coach = Inr chk \<longrightarrow>
      available chk \<longrightarrow>
      requested_coach db coach = Inr coach_instance \<longrightarrow>
      get_equipments db (map fst equipment_list) = Inr equipment_instances \<longrightarrow>
      calculate_price (pricing_rules db) court date st en equipment_instances coach_instance
        = Inr pricing \<longrightarrow>
      ((\<exists>item \<in> set equipment_list. snd item < 0) \<longrightarrow>
         confirm_booking now user cid date st en equipment_list coach db
           = (ErrorResponse IntegrityError, db))
      \<and> ((\<forall>item \<in> set equipment_list. 0 \<le> snd item) \<longrightarrow>
           distinct (map fst equipment_list) \<longrightarrow> line_items_have_bookings db \<longrightarrow>
           confirm_booking now user cid date st en equipment_list coach db
             = (BookingConfirmed (next_id (map booking_id (bookings db))),
                db\<lparr>bookings := bookings db
                       @ [new_booking now user court date st en coach_instance pricing db],
                   booking_equipments := booking_equipments db
                       @ map (\<lambda>item. \<lparr>be_booking = next_id (map booking_id (bookings db)),
                                        be_equipment = fst item, quantity = snd item\<rparr>)
                           equipment_list\<rparr>)))
   \<and> (get_equipment db eid = Inr eq \<longrightarrow>
        check_equipment_available db eid qty date st en None
          = Inr (qty \<le> total_quantity eq - booked_quantity db eid date st en None))
   \<and> ((\<forall>item \<in> set equipment_list. \<exists>eq. get_equipment db (fst item) = Inr eq) \<longrightarrow>
        (\<exists>errs. check_equipment_list db date st en equipment_list = Inr errs
           \<and> (errs = [] \<longleftrightarrow>
                (\<forall>item \<in> set equipment_list.
                   check_equipment_available db (fst item) (snd item) date st en None
                     = Inr True))))
   \<and> (confirm_booking now user cid date st en equipment_list coach db
         = (BookingConfirmed bid, db') \<longrightarrow>
       (\<forall>item \<in> set equipment_list.
           0 \<le> snd item
           \<and> check_equipment_available db (fst item) (snd item) date st en None = Inr True)
       \<and> booking_equipments db'
           = booking_equipments db
             @ map (\<lambda>item. \<lparr>be_booking = bid, be_equipment = fst item, quantity = snd item\<rparr>)
                 equipment_list)
   \<and> ((\<exists>item \<in> set equipment_list. snd item < 0) \<longrightarrow>
        snd (confirm_booking now user cid date st en equipment_list coach db) = db)"
proof -
  let ?confirm = "confirm_booking now user cid date st en equipment_list coach db"
  let ?bid = "next_id (map booking_id (bookings db))"
  have taken: "?confirm = (SlotFull, db)"
    if "get_court db cid = Inr court" "\<not> check_court_available db cid date st en None"
    using that slot_free[OF that(1), of date st en]
    by (simp add: confirm_booking_def)
  have short: "?confirm = (NotAvailable (errors chk), db)"
    if "get_court db cid = Inr court" "check_court_available db cid date st en None"
      "check_all_resources_available db date st en cid equipment_list coach = Inr chk"
      "\<not> available chk"
    using that slot_free[OF that(1), of date st en]
    by (simp add: confirm_booking_def)
  have priced: "?confirm =
     (case create_booking_equipment ?bid equipment_list (booking_equipments db) of
        Inl e \<Rightarrow> (ErrorResponse e, db)
      | Inr rows \<Rightarrow>
          (BookingConfirmed ?bid,
           db\<lparr>bookings := bookings db
                  @ [new_booking now user court date st en coach_instance pricing db],
              booking_equipments := rows\<rparr>))"
    if "get_court db cid = Inr court" "check_court_available db cid date st en None"
      "check_all_resources_available db date st en cid equipment_list coach = Inr chk"
      "available chk" "requested_coach db coach = Inr coach_instance"
      "get_equipments db (map fst equipment_list) = Inr equipment_instances"
      "calculate_price (pricing_rules db) court date st en equipment_instances coach_instance
        = Inr pricing"
    using that by (rule confirm_booking_after_pricing)
  have fresh: "\<forall>r \<in> set (booking_equipments db).
      be_booking r = ?bid \<longrightarrow> be_equipment r \<notin> fst ` set equipment_list"
    if "line_items_have_bookings db"
  proof (intro ballI impI)
    fix r
    assume "r \<in> set (booking_equipments db)" "be_booking r = ?bid"
    with that obtain b where "b \<in> set (bookings db)" "booking_id b = ?bid"
      unfolding line_items_have_bookings_def list_all_iff list_ex_iff by metis
    then have "?bid \<in> set (map booking_id (bookings db))"
      by (metis image_eqI set_map)
    with next_id_fresh show "be_equipment r \<notin> fst ` set equipment_list"
      by blast
  qed
  have confirmed: "(\<forall>item \<in> set equipment_list.
           0 \<le> snd item
           \<and> check_equipment_available db (fst item) (snd item) date st en None = Inr True)
       \<and> booking_equipments db'
           = booking_equipments db
             @ map (\<lambda>item. \<lparr>be_booking = bid, be_equipment = fst item, quantity = snd item\<rparr>)
                 equipment_list"
    if ok: "?confirm = (BookingConfirmed bid, db')" for bid db'
  proof -
    from confirm_booking_confirmed[OF ok] obtain chk rows where
      chk: "check_all_resources_available db date st en cid equipment_list coach = Inr chk"
        "available chk"
      and rows: "create_booking_equipment bid equipment_list (booking_equipments db) = Inr rows"
        "booking_equipments db' = rows"
      by blast
    from check_equipment_list_passed[OF check_all_passed[OF chk]]
      create_booking_equipment_rows[OF rows(1)] rows(2)
    show ?thesis by simp
  qed
  have unchanged: "snd ?confirm = db" if neg: "\<exists>item \<in> set equipment_list. snd item < 0"
  proof -
    obtain r db' where run: "?confirm = (r, db')"
      by (cases ?confirm)
    have "r \<noteq> BookingConfirmed bid'" for bid'
    proof
      assume "r = BookingConfirmed bid'"
      with run confirmed[of bid' db'] neg show False
        by fastforce
    qed
    with confirm_booking_unchanged[OF run] run show ?thesis
      by auto
  qed
  show ?thesis
    using taken short unchanged
  proof (intro conjI impI)
    assume h: "get_court db cid = Inr court" "check_court_available db cid date st en None"
      "check_all_resources_available db date st en cid equipment_list coach = Inr chk"
      "available chk" "requested_coach db coach = Inr coach_instance"
      "get_equipments db (map fst equipment_list) = Inr equipment_instances"
      "calculate_price (pricing_rules db) court date st en equipment_instances coach_instance
        = Inr pricing"
    {
      assume "\<exists>item \<in> set equipment_list. snd item < 0"
      then show "?confirm = (ErrorResponse IntegrityError, db)"
        using priced[OF h] by (simp add: create_booking_equipment_negative)
    next
      assume "\<forall>item \<in> set equipment_list. 0 \<le> snd item" "distinct (map fst equipment_list)"
        "line_items_have_bookings db"
      then have "create_booking_equipment ?bid equipment_list (booking_equipments db)
           = Inr (booking_equipments db
                  @ map (\<lambda>item. \<lparr>be_booking = ?bid, be_equipment = fst item,
                                   quantity = snd item\<rparr>) equipment_list)"
        using fresh by (intro create_booking_equipment_stored) auto
      then show "?confirm
             = (BookingConfirmed ?bid,
                db\<lparr>bookings := bookings db
                       @ [new_booking now user court date st en coach_instance pricing db],
                   booking_equipments := booking_equipments db
                       @ map (\<lambda>item. \<lparr>be_booking = ?bid,
                                        be_equipment = fst item, quantity = snd item\<rparr>)
                           equipment_list\<rparr>)"
        using priced[OF h] by simp
    }
  next
    assume "get_equipment db eid = Inr eq"
    then show "check_equipment_available db eid qty date st en None
          = Inr (qty \<le> total_quantity eq - booked_quantity db eid date st en None)"
      by (rule check_equipment_available_decides)
  next
    assume "\<forall>item \<in> set equipment_list. \<exists>eq. get_equipment db (fst item) = Inr eq"
    then show "\<exists>errs. check_equipment_list db date st en equipment_list = Inr errs
           \<and> (errs = [] \<longleftrightarrow>
                (\<forall>item \<in> set equipment_list.
                   check_equipment_available db (fst item) (snd item) date st en None
                     = Inr True))"
      by (rule check_equipment_list_lines)
  next
    assume ok: "?confirm = (BookingConfirmed bid, db')"
    from confirmed[OF ok]
    show "\<forall>item \<in> set equipment_list.
           0 \<le> snd item
           \<and> check_equipment_available db (fst item) (snd item) date st en None = Inr True"
      and "booking_equipments db'
           = booking_equipments db
             @ map (\<lambda>item. \<lparr>be_booking = bid, be_equipment = fst item, quantity = snd item\<rparr>)
                 equipment_list"
      by blast+
  qed auto
qed

text \<open>
  The claim C5 itself, that a line with quantity 0 or less is rejected before the
  availability logic and creates no reservation, is false: a request for 0 rackets is
  confirmed and its line item stored, and a request for \<open>- 1\<close> rackets passes the
  availability check.
\<close>

theorem zero_quantity_accepted_counterexample:
  "fst (confirm_booking 5000 7 1 saturday (hm 18 0) (hm 19 0) [(1, 0)] None db0)
     = BookingConfirmed 1
   \<and> booking_equipments (snd (confirm_booking 5000 7 1 saturday (hm 18 0) (hm 19 0) [(1, 0)] None db0))
     = [\<lparr>be_booking = 1, be_equipment = 1, quantity = 0\<rparr>]
   \<and> map booking_status
       (bookings (snd (confirm_booking 5000 7 1 saturday (hm 18 0) (hm 19 0) [(1, 0)] None db0)))
     = [CONFIRMED]
   \<and> check_all_resources_available db0 saturday (hm 18 0) (hm 19 0) 1 [(1, - 1)] None
     = Inr \<lparr>available = True, errors = []\<rparr>"
  by (simp add: confirm_defs pricing_defs catalog_defs)

theorem quantities_reach_availability_check_witness:
  "get_court db_booked 1 = Inr court1
   \<and> \<not> check_court_available db_booked 1 saturday (hm 18 30) (hm 19 30) None
   \<and> confirm_booking 5000 8 1 saturday (hm 18 30) (hm 19 30) [(1, 0)] None db_booked
       = (SlotFull, db_booked)
   \<and> get_court db0 1 = Inr court1
   \<and> check_court_available db0 1 saturday (hm 18 0) (hm 19 0) None
   \<and> check_all_resources_available db0 saturday (hm 18 0) (hm 19 0) 1 [(1, 0), (2, 6)] None
       = Inr \<lparr>available = False, errors = [''Insufficient Shoes available'']\<rparr>
   \<and> confirm_booking 5000 7 1 saturday (hm 18 0) (hm 19 0) [(1, 0), (2, 6)] None db0
       = (NotAvailable [''Insufficient Shoes available''], db0)
   \<and> check_all_resources_available db0 saturday (hm 18 0) (hm 19 0) 1 [(1, 1), (2, - 1)] None
       = Inr \<lparr>available = True, errors = []\<rparr>
   \<and> requested_coach db0 None = Inr None
   \<and> get_equipments db0 (map fst [(1 :: nat, 1 :: int), (2, - 1)]) = Inr [racket, shoes]
   \<and> \<not> isl (calculate_price (pricing_rules db0) court1 saturday (hm 18 0) (hm 19 0)
               [racket, shoes] None)
   \<and> snd (2 :: nat, - 1 :: int) < 0
   \<and> confirm_booking 5000 7 1 saturday (hm 18 0) (hm 19 0) [(1, 1), (2, - 1)] None db0
       = (ErrorResponse IntegrityError, db0)
   \<and> check_all_resources_available db0 saturday (hm 18 0) (hm 19 0) 1 [(1, 0)] None
       = Inr \<lparr>available = True, errors = []\<rparr>
   \<and> get_equipments db0 (map fst [(1 :: nat, 0 :: int)]) = Inr [racket]
   \<and> line_items_have_bookings db0
   \<and> fst (confirm_booking 5000 7 1 saturday (hm 18 0) (hm 19 0) [(1, 0)] None db0)
       = BookingConfirmed 1
   \<and> booking_equipments
         (snd (confirm_booking 5000 7 1 saturday (hm 18 0) (hm 19 0) [(1, 0)] None db0))
       = [\<lparr>be_booking = 1, be_equipment = 1, quantity = 0\<rparr>]
   \<and> get_equipment db0 1 = Inr racket
   \<and> check_equipment_available db0 1 0 saturday (hm 18 0) (hm 19 0) None = Inr True
   \<and> check_equipment_available db0 1 (- 1) saturday (hm 18 0) (hm 19 0) None = Inr True
   \<and> check_equipment_available db0 1 11 saturday (hm 18 0) (hm 19 0) None = Inr False"
proof -
  note T = quantities_reach_availability_check
  have c1: "get_court db_booked 1 = Inr court1"
    "\<not> check_court_available db_booked 1 saturday (hm 18 30) (hm 19 30) None"
    by (simp_all add: get_court_def check_court_available_def confirmed_in_window_def
          excluded_def truthy_def catalog_defs queue_defs hm_def)
  from T[of db_booked 1 court1 saturday "hm 18 30" "hm 19 30" 5000 8 "[(1, 0)]" None] c1
  have r1: "confirm_booking 5000 8 1 saturday (hm 18 30) (hm 19 30) [(1, 0)] None db_booked
       = (SlotFull, db_booked)"
    by blast
  have c0: "get_court db0 1 = Inr court1"
    "check_court_available db0 1 saturday (hm 18 0) (hm 19 0) None"
    "requested_coach db0 None = Inr None" "line_items_have_bookings db0"
    "bookings db0 = []" "booking_equipments db0 = []"
    by (simp_all add: get_court_def check_court_available_def requested_coach_def
          line_items_have_bookings_def catalog_defs)
  have a2: "check_all_resources_available db0 saturday (hm 18 0) (hm 19 0) 1 [(1, 0), (2, 6)] None
       = Inr \<lparr>available = False, errors = [''Insufficient Shoes available'']\<rparr>"
    by (simp add: confirm_defs catalog_defs)
  from T[of db0 1 court1 saturday "hm 18 0" "hm 19 0" 5000 7 "[(1, 0), (2, 6)]" None
        "\<lparr>available = False, errors = [''Insufficient Shoes available'']\<rparr>"] c0 a2
  have r2: "confirm_booking 5000 7 1 saturday (hm 18 0) (hm 19 0) [(1, 0), (2, 6)] None db0
       = (NotAvailable [''Insufficient Shoes available''], db0)"
    by simp
  have a3: "check_all_resources_available db0 saturday (hm 18 0) (hm 19 0) 1 [(1, 1), (2, - 1)] None
       = Inr \<lparr>available = True, errors = []\<rparr>"
    "get_equipments db0 (map fst [(1 :: nat, 1 :: int), (2, - 1)]) = Inr [racket, shoes]"
    by (simp_all add: confirm_defs catalog_defs)
  obtain p3 where p3: "calculate_price (pricing_rules db0) court1 saturday (hm 18 0) (hm 19 0)
             [racket, shoes] None = Inr p3"
    by (simp add: pricing_defs catalog_defs)
  have neg: "\<exists>item \<in> set [(1 :: nat, 1 :: int), (2, - 1)]. snd item < 0"
    by simp
  from T[of db0 1 court1 saturday "hm 18 0" "hm 19 0" 5000 7 "[(1, 1), (2, - 1)]" None
        "\<lparr>available = True, errors = []\<rparr>" None "[racket, shoes]" p3] c0 a3 p3 neg
  have r3: "confirm_booking 5000 7 1 saturday (hm 18 0) (hm 19 0) [(1, 1), (2, - 1)] None db0
       = (ErrorResponse IntegrityError, db0)"
    by simp
  have a4: "check_all_resources_available db0 saturday (hm 18 0) (hm 19 0) 1 [(1, 0)] None
       = Inr \<lparr>available = True, errors = []\<rparr>"
    "get_equipments db0 (map fst [(1 :: nat, 0 :: int)]) = Inr [racket]"
    by (simp_all add: confirm_defs catalog_defs)
  obtain p4 where p4: "calculate_price (pricing_rules db0) court1 saturday (hm 18 0) (hm 19 0)
             [racket] None = Inr p4"
    by (simp add: pricing_defs catalog_defs)
  have nn: "\<forall>item \<in> set [(1 :: nat, 0 :: int)]. 0 \<le> snd item"
    "distinct (map fst [(1 :: nat, 0 :: int)])"
    by simp_all
  from T[of db0 1 court1 saturday "hm 18 0" "hm 19 0" 5000 7 "[(1, 0)]" None
        "\<lparr>available = True, errors = []\<rparr>" None "[racket]" p4] c0 a4 p4 nn
  have "confirm_booking 5000 7 1 saturday (hm 18 0) (hm 19 0) [(1, 0)] None db0
             = (BookingConfirmed (next_id (map booking_id (bookings db0))),
                db0\<lparr>bookings := bookings db0
                       @ [new_booking 5000 7 court1 saturday (hm 18 0) (hm 19 0) None p4 db0],
                   booking_equipments := booking_equipments db0
                       @ map (\<lambda>item. \<lparr>be_booking = next_id (map booking_id (bookings db0)),
                                        be_equipment = fst item, quantity = snd item\<rparr>)
                           [(1, 0)]\<rparr>)"
    by simp
  then have r4: "fst (confirm_booking 5000 7 1 saturday (hm 18 0) (hm 19 0) [(1, 0)] None db0)
       = BookingConfirmed 1"
    "booking_equipments
         (snd (confirm_booking 5000 7 1 saturday (hm 18 0) (hm 19 0) [(1, 0)] None db0))
       = [\<lparr>be_booking = 1, be_equipment = 1, quantity = 0\<rparr>]"
    unfolding c0 by (simp_all add: next_id_def)
  have g: "get_equipment db0 1 = Inr racket"
    by (simp add: get_equipment_def catalog_defs)
  have b: "booked_quantity db0 1 saturday (hm 18 0) (hm 19 0) None = 0"
    "total_quantity racket = 10"
    by (simp_all add: booked_quantity_def catalog_defs)
  from T[where db = db0 and eid = 1 and eq = racket and qty = 0 and date = saturday
        and st = "hm 18 0" and en = "hm 19 0"] g
  have "check_equipment_available db0 1 0 saturday (hm 18 0) (hm 19 0) None
       = Inr (0 \<le> total_quantity racket - booked_quantity db0 1 saturday (hm 18 0) (hm 19 0) None)"
    by blast
  then have e0: "check_equipment_available db0 1 0 saturday (hm 18 0) (hm 19 0) None = Inr True"
    unfolding b by simp
  from T[where db = db0 and eid = 1 and eq = racket and qty = "- 1" and date = saturday
        and st = "hm 18 0" and en = "hm 19 0"] g
  have "check_equipment_available db0 1 (- 1) saturday (hm 18 0) (hm 19 0) None
       = Inr (- 1 \<le> total_quantity racket - booked_quantity db0 1 saturday (hm 18 0) (hm 19 0) None)"
    by blast
  then have e1: "check_equipment_available db0 1 (- 1) saturday (hm 18 0) (hm 19 0) None = Inr True"
    unfolding b by simp
  from T[where db = db0 and eid = 1 and eq = racket and qty = 11 and date = saturday
        and st = "hm 18 0" and en = "hm 19 0"] g
  have "check_equipment_available db0 1 11 saturday (hm 18 0) (hm 19 0) None
       = Inr (11 \<le> total_quantity racket - booked_quantity db0 1 saturday (hm 18 0) (hm 19 0) None)"
    by blast
  then have e2: "check_equipment_available db0 1 11 saturday (hm 18 0) (hm 19 0) None = Inr False"
    unfolding b by simp
  from c1 r1 c0 a2 r2 a3 p3 r3 a4 r4 g e0 e1 e2 show ?thesis
    by simp
qed

end
